theory Spec2Isabelle
  imports Main "HOL-Library.Sublist" "HOL-Library.Char_ord"
begin

section \<open>JavaScript strings\<close>

text \<open>
  A JavaScript string is a sequence of UTF-16 code units. The model uses \<^typ>\<open>string\<close>,
  one \<^typ>\<open>char\<close> per code unit, and so covers the texts whose code units lie below
  \<open>0x100\<close> (ASCII and Latin-1). Lengths and indices are counts of code units, as in the
  source. The bullet \<open>U+2022\<close> of the skills separator lies outside this alphabet.
\<close>

definition isDigit :: "char \<Rightarrow> bool" where
  "isDigit c = (CHR ''0'' \<le> c \<and> c \<le> CHR ''9'')"

definition isUpperAZ :: "char \<Rightarrow> bool" where
  "isUpperAZ c = (CHR ''A'' \<le> c \<and> c \<le> CHR ''Z'')"

definition isLowerAZ :: "char \<Rightarrow> bool" where
  "isLowerAZ c = (CHR ''a'' \<le> c \<and> c \<le> CHR ''z'')"

definition isLetterAZ :: "char \<Rightarrow> bool" where
  "isLetterAZ c = (isUpperAZ c \<or> isLowerAZ c)"

text \<open>The characters \<open>\s\<close> and \<open>trim\<close> treat as white space (tab, line feed, vertical tab,
  form feed, carriage return, space, no-break space).\<close>

definition isSpace :: "char \<Rightarrow> bool" where
  "isSpace c = (c = CHR 0x09 \<or> c = CHR 0x0A \<or> c = CHR 0x0B \<or> c = CHR 0x0C \<or> c = CHR 0x0D
     \<or> c = CHR 0x20 \<or> c = CHR 0xA0)"

definition isWordChar :: "char \<Rightarrow> bool" where
  "isWordChar c = (isUpperAZ c \<or> isLowerAZ c \<or> isDigit c \<or> c = CHR ''_'')"

definition isLineTerminator :: "char \<Rightarrow> bool" where
  "isLineTerminator c = (c = CHR 0x0A \<or> c = CHR 0x0D)"

text \<open>Case mapping of one code unit: the ASCII letters and the Latin-1 letters
  \<open>0xC0..0xDE\<close> / \<open>0xE0..0xFE\<close> (without the signs \<open>0xD7\<close> and \<open>0xF7\<close>) differ in
  bit 5 only.\<close>

definition toUpperChar :: "char \<Rightarrow> char" where
  "toUpperChar c =
     (if isLowerAZ c \<or> (CHR 0xE0 \<le> c \<and> c \<le> CHR 0xFE \<and> c \<noteq> CHR 0xF7)
      then (case c of Char b0 b1 b2 b3 b4 b5 b6 b7 \<Rightarrow> Char b0 b1 b2 b3 b4 False b6 b7)
      else c)"

definition toLowerChar :: "char \<Rightarrow> char" where
  "toLowerChar c =
     (if isUpperAZ c \<or> (CHR 0xC0 \<le> c \<and> c \<le> CHR 0xDE \<and> c \<noteq> CHR 0xD7)
      then (case c of Char b0 b1 b2 b3 b4 b5 b6 b7 \<Rightarrow> Char b0 b1 b2 b3 b4 True b6 b7)
      else c)"

definition toLowerCase :: "string \<Rightarrow> string" where
  "toLowerCase s = map toLowerChar s"

text \<open>\<open>s.includes(p)\<close>: \<open>p\<close> occurs in \<open>s\<close> as a contiguous piece.\<close>

fun includesStr :: "string \<Rightarrow> string \<Rightarrow> bool" where
  "includesStr [] p = (p = [])"
| "includesStr (c # cs) p = (prefix p (c # cs) \<or> includesStr cs p)"

text \<open>\<open>s.indexOf(p)\<close>: the first index where \<open>p\<close> occurs; \<open>None\<close> stands for \<open>-1\<close>.\<close>

fun indexOfFrom :: "nat \<Rightarrow> string \<Rightarrow> string \<Rightarrow> nat option" where
  "indexOfFrom i [] p = (if p = [] then Some i else None)"
| "indexOfFrom i (c # cs) p = (if prefix p (c # cs) then Some i else indexOfFrom (Suc i) cs p)"

definition indexOf :: "string \<Rightarrow> string \<Rightarrow> nat option" where
  "indexOf s p = indexOfFrom 0 s p"

definition trim :: "string \<Rightarrow> string" where
  "trim s = rev (dropWhile isSpace (rev (dropWhile isSpace s)))"

text \<open>\<open>s.substring(a, b)\<close> for arguments that are not negative: both are clamped to the
  length, and swapped when \<open>a\<close> exceeds \<open>b\<close>. \<open>s.substring(a)\<close> runs to the end.\<close>

definition substring :: "string \<Rightarrow> nat \<Rightarrow> nat \<Rightarrow> string" where
  "substring s a b =
     (let a' = min a (length s); b' = min b (length s)
      in take (max a' b' - min a' b') (drop (min a' b') s))"

definition substringFrom :: "string \<Rightarrow> nat \<Rightarrow> string" where
  "substringFrom s a = drop a s"

text \<open>\<open>s.replace(p, '')\<close> with a string pattern: the first occurrence of \<open>p\<close> is removed.\<close>

fun removeFirst :: "string \<Rightarrow> string \<Rightarrow> string" where
  "removeFirst [] p = []"
| "removeFirst (c # cs) p =
     (if prefix p (c # cs) then drop (length p) (c # cs) else c # removeFirst cs p)"

text \<open>\<open>s.split(sep)\<close> for a separator that matches exactly one code unit (a character, or
  a character class without quantifier): the pieces between the separators, the empty
  ones included.\<close>

fun splitChars :: "(char \<Rightarrow> bool) \<Rightarrow> string \<Rightarrow> string list" where
  "splitChars P [] = [[]]"
| "splitChars P (c # cs) =
     (if P c then [] # splitChars P cs
      else (case splitChars P cs of w # ws \<Rightarrow> (c # w) # ws | [] \<Rightarrow> [[c]]))"

text \<open>\<open>xs.join(sep)\<close>.\<close>

fun joinWith :: "string \<Rightarrow> string list \<Rightarrow> string" where
  "joinWith sep [] = []"
| "joinWith sep [x] = x"
| "joinWith sep (x # y # ys) = x @ sep @ joinWith sep (y # ys)"

text \<open>\<open>[...new Set(xs)]\<close>: the first occurrence of every element, in order.\<close>

definition setDedupe :: "'a list \<Rightarrow> 'a list" where
  "setDedupe xs = rev (remdups (rev xs))"

text \<open>What string conversion (a template literal, \<open>+\<close>) makes of a value that is a string,
  \<open>null\<close> or \<open>undefined\<close>.\<close>

definition strOfNullable :: "string option \<Rightarrow> string" where
  "strOfNullable v = (case v of None \<Rightarrow> ''null'' | Some s \<Rightarrow> s)"

definition strOfUndefinable :: "string option \<Rightarrow> string" where
  "strOfUndefinable v = (case v of None \<Rightarrow> ''undefined'' | Some s \<Rightarrow> s)"

text \<open>Truthiness of a value that is a string or \<open>null\<close>/\<open>undefined\<close>.\<close>

definition truthy :: "string option \<Rightarrow> bool" where
  "truthy v = (case v of None \<Rightarrow> False | Some s \<Rightarrow> s \<noteq> [])"

text \<open>The ways an evaluation ends without a value: a loop that never exits, and the
  \<open>TypeError\<close> of reading a property of \<open>undefined\<close>.\<close>

datatype jsAbort = NonTermination | TypeError

section \<open>Regular expressions\<close>

text \<open>
  The source does its work with regular-expression literals, so the model carries the
  patterns as data and matches them with a backtracking matcher in the continuation style
  of the ECMAScript specification: a matcher takes the state reached so far and a
  continuation for the rest of the pattern, and answers with the first complete match in
  priority order. The constructors are the pattern forms the source uses.
\<close>

datatype rx =
    Cls "char \<Rightarrow> bool"               \<comment> \<open>a character class \<open>[...]\<close>, an escape such as \<open>\d\<close>\<close>
  | NCls "char \<Rightarrow> bool"              \<comment> \<open>a negated class \<open>[^...]\<close>\<close>
  | Lit string                         \<comment> \<open>literal characters\<close>
  | Seq rx rx
  | Alt rx rx                          \<comment> \<open>\<open>a|b\<close>, left first\<close>
  | Rep nat "nat option" bool rx       \<comment> \<open>\<open>{min,max}\<close>, \<open>None\<close> for no upper bound; greedy?\<close>
  | Grp nat rx                         \<comment> \<open>the capturing group with this number\<close>
  | Bol                                \<comment> \<open>\<open>^\<close>\<close>
  | Eol                                \<comment> \<open>\<open>$\<close>\<close>
  | WordB                              \<comment> \<open>\<open>\b\<close>\<close>
  | Eps

text \<open>The state of a match: the code unit before the current position (for \<open>^\<close> and
  \<open>\b\<close>), the input from the current position on, and the captures.\<close>

datatype mstate = MState (prev: "char option") (rest: string) (caps: "nat \<Rightarrow> string option")

type_synonym cont = "mstate \<Rightarrow> mstate option"
type_synonym matcher = "cont \<Rightarrow> mstate \<Rightarrow> mstate option"

text \<open>With the flag \<open>i\<close> two code units match when their canonical (upper-case) forms
  agree; a class matches a code unit when it holds a member with the same canonical form,
  which is the unit itself or one of its two case variants.\<close>

definition canonEq :: "bool \<Rightarrow> char \<Rightarrow> char \<Rightarrow> bool" where
  "canonEq ic a b = (if ic then toUpperChar a = toUpperChar b else a = b)"

definition clsMatch :: "bool \<Rightarrow> (char \<Rightarrow> bool) \<Rightarrow> char \<Rightarrow> bool" where
  "clsMatch ic P c = (P c \<or> (ic \<and> (P (toUpperChar c) \<or> P (toLowerChar c))))"

definition clearCaps :: "nat list \<Rightarrow> mstate \<Rightarrow> mstate" where
  "clearCaps gs x = MState (prev x) (rest x) (\<lambda>n. if n \<in> set gs then None else caps x n)"

text \<open>
  The quantifier, after RepeatMatcher of the ECMAScript specification: \<open>repeatCont\<close> is
  the continuation \<open>d\<close> handed to the repeated matcher. An iteration that is not
  required and consumes nothing is rejected; the specification tests that the end index
  did not move, the model that the remaining input did not get shorter, which is the same
  for matchers that only consume. The captures of the groups inside the repeated pattern
  are cleared before every iteration.
\<close>

function repeatMatcher :: "matcher \<Rightarrow> nat list \<Rightarrow> nat \<Rightarrow> nat option \<Rightarrow> bool \<Rightarrow> cont \<Rightarrow> mstate \<Rightarrow> mstate option"
  and repeatCont :: "matcher \<Rightarrow> nat list \<Rightarrow> nat \<Rightarrow> nat option \<Rightarrow> bool \<Rightarrow> cont \<Rightarrow> mstate \<Rightarrow> mstate \<Rightarrow> mstate option"
  where
  "repeatMatcher m gs mn mx greedy c x =
    (if mx = Some 0 then c x
     else if mn \<noteq> 0 then m (repeatCont m gs mn mx greedy c x) (clearCaps gs x)
     else if \<not> greedy then
       (case c x of
          Some z \<Rightarrow> Some z
        | None \<Rightarrow> m (repeatCont m gs mn mx greedy c x) (clearCaps gs x))
     else
       (case m (repeatCont m gs mn mx greedy c x) (clearCaps gs x) of
          Some z \<Rightarrow> Some z
        | None \<Rightarrow> c x))"
| "repeatCont m gs mn mx greedy c x y =
    (if mn = 0 \<and> \<not> length (rest y) < length (rest x) then None
     else repeatMatcher m gs (mn - 1) (map_option (\<lambda>k. k - 1) mx) greedy c y)"
  by pat_completeness auto
termination
  by (relation "measures [
     (\<lambda>a. case a of Inl (m, gs, mn, mx, g, c, x) \<Rightarrow> mn | Inr (m, gs, mn, mx, g, c, x, y) \<Rightarrow> mn),
     (\<lambda>a. case a of Inl (m, gs, mn, mx, g, c, x) \<Rightarrow> length (rest x)
                  | Inr (m, gs, mn, mx, g, c, x, y) \<Rightarrow> length (rest x)),
     (\<lambda>a. case a of Inl (m, gs, mn, mx, g, c, x) \<Rightarrow> 1 | Inr (m, gs, mn, mx, g, c, x, y) \<Rightarrow> 0)]")
   auto

fun litMatcher :: "bool \<Rightarrow> string \<Rightarrow> cont \<Rightarrow> mstate \<Rightarrow> mstate option" where
  "litMatcher ic [] c x = c x"
| "litMatcher ic (a # as) c x =
     (case rest x of
        [] \<Rightarrow> None
      | b # bs \<Rightarrow>
          if canonEq ic a b then litMatcher ic as c (MState (Some b) bs (caps x)) else None)"

definition isWordAt :: "char option \<Rightarrow> bool" where
  "isWordAt p = (case p of None \<Rightarrow> False | Some c \<Rightarrow> isWordChar c)"

definition nextChar :: "mstate \<Rightarrow> char option" where
  "nextChar x = (case rest x of [] \<Rightarrow> None | b # bs \<Rightarrow> Some b)"

definition isLineBreakAt :: "char option \<Rightarrow> bool" where
  "isLineBreakAt p = (case p of None \<Rightarrow> False | Some c \<Rightarrow> isLineTerminator c)"

primrec groupsOf :: "rx \<Rightarrow> nat list" where
  "groupsOf (Cls P) = []"
| "groupsOf (NCls P) = []"
| "groupsOf (Lit w) = []"
| "groupsOf (Seq r1 r2) = groupsOf r1 @ groupsOf r2"
| "groupsOf (Alt r1 r2) = groupsOf r1 @ groupsOf r2"
| "groupsOf (Rep mn mx g r) = groupsOf r"
| "groupsOf (Grp n r) = n # groupsOf r"
| "groupsOf Bol = []"
| "groupsOf Eol = []"
| "groupsOf WordB = []"
| "groupsOf Eps = []"

text \<open>The continuation of a capturing group: it records what the group consumed.\<close>

definition groupCont :: "nat \<Rightarrow> mstate \<Rightarrow> cont \<Rightarrow> mstate \<Rightarrow> mstate option" where
  "groupCont n x c y =
     c (MState (prev y) (rest y)
          ((caps y)(n := Some (take (length (rest x) - length (rest y)) (rest x)))))"

text \<open>The matcher of a pattern, under the flags \<open>i\<close> (\<open>ic\<close>) and \<open>m\<close> (\<open>ml\<close>).\<close>

primrec compile :: "rx \<Rightarrow> bool \<Rightarrow> bool \<Rightarrow> cont \<Rightarrow> mstate \<Rightarrow> mstate option" where
  "compile (Cls P) ic ml c x =
     (case rest x of
        [] \<Rightarrow> None
      | b # bs \<Rightarrow> if clsMatch ic P b then c (MState (Some b) bs (caps x)) else None)"
| "compile (NCls P) ic ml c x =
     (case rest x of
        [] \<Rightarrow> None
      | b # bs \<Rightarrow> if \<not> clsMatch ic P b then c (MState (Some b) bs (caps x)) else None)"
| "compile (Lit w) ic ml c x = litMatcher ic w c x"
| "compile (Seq r1 r2) ic ml c x = compile r1 ic ml (compile r2 ic ml c) x"
| "compile (Alt r1 r2) ic ml c x =
     (case compile r1 ic ml c x of Some z \<Rightarrow> Some z | None \<Rightarrow> compile r2 ic ml c x)"
| "compile (Rep mn mx greedy r) ic ml c x =
     repeatMatcher (compile r ic ml) (groupsOf r) mn mx greedy c x"
| "compile (Grp n r) ic ml c x = compile r ic ml (groupCont n x c) x"
| "compile Bol ic ml c x =
     (if prev x = None \<or> (ml \<and> isLineBreakAt (prev x)) then c x else None)"
| "compile Eol ic ml c x =
     (if rest x = [] \<or> (ml \<and> isLineBreakAt (nextChar x)) then c x else None)"
| "compile WordB ic ml c x =
     (if isWordAt (prev x) \<noteq> isWordAt (nextChar x) then c x else None)"
| "compile Eps ic ml c x = c x"

text \<open>A regular-expression object: the pattern and its flags \<open>i\<close> and \<open>m\<close>. (The flag
  \<open>g\<close> only matters to \<open>exec\<close> in a loop, which is \<open>execLoop\<close> below.)\<close>

record regexp =
  pattern :: rx
  ignoreCase :: bool
  multiline :: bool

text \<open>A match object: \<open>m.index\<close>, \<open>m[0]\<close> and the groups \<open>m[1]\<close>, \<open>m[2]\<close>, ...
  (\<open>None\<close> for \<open>undefined\<close>).\<close>

record jsmatch =
  index :: nat
  matched :: string
  groups :: "nat \<Rightarrow> string option"

definition matchAt :: "regexp \<Rightarrow> char option \<Rightarrow> string \<Rightarrow> mstate option" where
  "matchAt re p s =
     compile (pattern re) (ignoreCase re) (multiline re) Some (MState p s (\<lambda>n. None))"

text \<open>The search for the leftmost match from a position on: \<open>p\<close> is the code unit before
  the position, \<open>s\<close> the input from it on, \<open>i\<close> its index.\<close>

fun scan :: "regexp \<Rightarrow> char option \<Rightarrow> string \<Rightarrow> nat \<Rightarrow> jsmatch option" where
  "scan re p [] i =
     (case matchAt re p [] of
        Some y \<Rightarrow> Some \<lparr>index = i, matched = [], groups = caps y\<rparr>
      | None \<Rightarrow> None)"
| "scan re p (b # bs) i =
     (case matchAt re p (b # bs) of
        Some y \<Rightarrow>
          Some \<lparr>index = i, matched = take (length (b # bs) - length (rest y)) (b # bs),
                groups = caps y\<rparr>
      | None \<Rightarrow> scan re (Some b) bs (Suc i))"

text \<open>\<open>s.match(re)\<close> and \<open>re.exec(s)\<close> for a regular expression without the flag \<open>g\<close>,
  and \<open>re.test(s)\<close>.\<close>

definition regexMatch :: "regexp \<Rightarrow> string \<Rightarrow> jsmatch option" where
  "regexMatch re s = scan re None s 0"

definition regexTest :: "regexp \<Rightarrow> string \<Rightarrow> bool" where
  "regexTest re s = (regexMatch re s \<noteq> None)"

text \<open>
  The loop \<open>while ((m = re.exec(s)) !== null) { ... }\<close> over a fresh regular expression
  with the flag \<open>g\<close>: every search starts where the last match ended. The result is the
  list of the matches the loop body sees. After an empty match the next search finds the
  same match again, so the loop never exits: \<open>Inl NonTermination\<close>.
\<close>

function execLoop :: "regexp \<Rightarrow> char option \<Rightarrow> string \<Rightarrow> nat \<Rightarrow> jsAbort + jsmatch list" where
  "execLoop re p s i =
     (case scan re p s i of
        None \<Rightarrow> Inr []
      | Some m \<Rightarrow>
          if matched m = [] then Inl NonTermination
          else
            (case execLoop re (Some (last (matched m)))
                    (drop (index m - i + length (matched m)) s) (index m + length (matched m)) of
               Inl e \<Rightarrow> Inl e
             | Inr ms \<Rightarrow> Inr (m # ms)))"
  by pat_completeness auto
termination
  apply (relation "measure (\<lambda>(re, p, s, i). length s)")
   apply simp
  subgoal for re p s i m
    by (cases s) (auto split: option.splits)
  done

definition execAll :: "regexp \<Rightarrow> string \<Rightarrow> jsAbort + jsmatch list" where
  "execAll re s = execLoop re None s 0"

text \<open>Pattern notation: \<open>a|b|c\<close>, juxtaposition, \<open>*\<close>, \<open>+\<close>, \<open>?\<close>, \<open>*?\<close>, \<open>{n}\<close>, and the
  escapes and classes the source uses.\<close>

fun alts :: "rx list \<Rightarrow> rx" where
  "alts [] = Eps"
| "alts [r] = r"
| "alts (r # rs) = Alt r (alts rs)"

fun seqs :: "rx list \<Rightarrow> rx" where
  "seqs [] = Eps"
| "seqs [r] = r"
| "seqs (r # rs) = Seq r (seqs rs)"

definition rxStar :: "rx \<Rightarrow> rx" where "rxStar r = Rep 0 None True r"
definition rxPlus :: "rx \<Rightarrow> rx" where "rxPlus r = Rep 1 None True r"
definition rxOpt :: "rx \<Rightarrow> rx" where "rxOpt r = Rep 0 (Some 1) True r"
definition rxLazyStar :: "rx \<Rightarrow> rx" where "rxLazyStar r = Rep 0 None False r"
definition rxTimes :: "nat \<Rightarrow> rx \<Rightarrow> rx" where "rxTimes n r = Rep n (Some n) True r"
definition rxBetween :: "nat \<Rightarrow> nat \<Rightarrow> rx \<Rightarrow> rx" where "rxBetween n k r = Rep n (Some k) True r"
definition rxAtLeast :: "nat \<Rightarrow> rx \<Rightarrow> rx" where "rxAtLeast n r = Rep n None True r"

definition rxAny :: rx where "rxAny = Cls (\<lambda>c. True)"     \<comment> \<open>\<open>[\s\S]\<close>\<close>
definition rxDigit :: rx where "rxDigit = Cls isDigit"            \<comment> \<open>\<open>\d\<close>, \<open>[0-9]\<close>\<close>
definition rxSpace :: rx where "rxSpace = Cls isSpace"            \<comment> \<open>\<open>\s\<close>\<close>
definition rxLetterOrSpace :: rx where                          \<comment> \<open>\<open>[A-Za-z\s]\<close>\<close>
  "rxLetterOrSpace = Cls (\<lambda>c. isUpperAZ c \<or> isLowerAZ c \<or> isSpace c)"
definition rxUpperAZ :: rx where "rxUpperAZ = Cls isUpperAZ"      \<comment> \<open>\<open>[A-Z]\<close>\<close>
definition rxLowerAZ :: rx where "rxLowerAZ = Cls isLowerAZ"      \<comment> \<open>\<open>[a-z]\<close>\<close>

section \<open>What a match can be\<close>

text \<open>
  The matcher is a search; the facts about its results come from a relation that forgets
  the search order: \<open>sem r ic ml x\<close> is the set of the states in which the pattern \<open>r\<close>,
  started in state \<open>x\<close>, can hand over to its continuation. For a quantifier the relation
  only keeps that a required iteration happens at least once.
\<close>

primrec iterSem :: "(mstate \<Rightarrow> mstate set) \<Rightarrow> nat \<Rightarrow> mstate \<Rightarrow> mstate set" where
  "iterSem f 0 x = {x}"
| "iterSem f (Suc k) x = (\<Union>u \<in> f x. iterSem f k u)"

definition minIter :: "nat \<Rightarrow> nat option \<Rightarrow> nat" where
  "minIter mn mx = (if mn = 0 \<or> mx = Some 0 then 0 else 1)"

primrec sem :: "rx \<Rightarrow> bool \<Rightarrow> bool \<Rightarrow> mstate \<Rightarrow> mstate set" where
  "sem (Cls P) ic ml x =
     {y. \<exists>b bs. rest x = b # bs \<and> clsMatch ic P b \<and> y = MState (Some b) bs (caps x)}"
| "sem (NCls P) ic ml x =
     {y. \<exists>b bs. rest x = b # bs \<and> \<not> clsMatch ic P b \<and> y = MState (Some b) bs (caps x)}"
| "sem (Lit w) ic ml x =
     {y. \<exists>v. rest x = v @ rest y \<and> list_all2 (canonEq ic) w v \<and> caps y = caps x \<and>
              prev y = (if v = [] then prev x else Some (last v))}"
| "sem (Seq r1 r2) ic ml x = (\<Union>u \<in> sem r1 ic ml x. sem r2 ic ml u)"
| "sem (Alt r1 r2) ic ml x = sem r1 ic ml x \<union> sem r2 ic ml x"
| "sem (Rep mn mx greedy r) ic ml x =
     (\<Union>k \<in> {k. minIter mn mx \<le> k}.
        iterSem (\<lambda>u. sem r ic ml (clearCaps (groupsOf r) u)) k x)"
| "sem (Grp n r) ic ml x =
     (\<lambda>y. MState (prev y) (rest y)
             ((caps y)(n := Some (take (length (rest x) - length (rest y)) (rest x)))))
       ` sem r ic ml x"
| "sem Bol ic ml x = (if prev x = None \<or> (ml \<and> isLineBreakAt (prev x)) then {x} else {})"
| "sem Eol ic ml x = (if rest x = [] \<or> (ml \<and> isLineBreakAt (nextChar x)) then {x} else {})"
| "sem WordB ic ml x = (if isWordAt (prev x) \<noteq> isWordAt (nextChar x) then {x} else {})"
| "sem Eps ic ml x = {x}"

text \<open>Three properties of a pattern that can be read off its shape: every text it matches
  holds a character that is not white space; whatever its group \<open>n\<close> captures holds one;
  a match always sets its group \<open>n\<close>.\<close>

primrec solid :: "rx \<Rightarrow> bool \<Rightarrow> bool" where
  "solid (Cls P) ic = (\<forall>c. clsMatch ic P c \<longrightarrow> \<not> isSpace c)"
| "solid (NCls P) ic = (\<forall>c. \<not> clsMatch ic P c \<longrightarrow> \<not> isSpace c)"
| "solid (Lit w) ic = (\<exists>a \<in> set w. \<forall>c. canonEq ic a c \<longrightarrow> \<not> isSpace c)"
| "solid (Seq r1 r2) ic = (solid r1 ic \<or> solid r2 ic)"
| "solid (Alt r1 r2) ic = (solid r1 ic \<and> solid r2 ic)"
| "solid (Rep mn mx greedy r) ic = (minIter mn mx = 1 \<and> solid r ic)"
| "solid (Grp n r) ic = solid r ic"
| "solid Bol ic = False"
| "solid Eol ic = False"
| "solid WordB ic = False"
| "solid Eps ic = False"

primrec grpSolid :: "rx \<Rightarrow> bool \<Rightarrow> nat \<Rightarrow> bool" where
  "grpSolid (Cls P) ic n = True"
| "grpSolid (NCls P) ic n = True"
| "grpSolid (Lit w) ic n = True"
| "grpSolid (Seq r1 r2) ic n = (grpSolid r1 ic n \<and> grpSolid r2 ic n)"
| "grpSolid (Alt r1 r2) ic n = (grpSolid r1 ic n \<and> grpSolid r2 ic n)"
| "grpSolid (Rep mn mx greedy r) ic n = grpSolid r ic n"
| "grpSolid (Grp k r) ic n = (if k = n then solid r ic else grpSolid r ic n)"
| "grpSolid Bol ic n = True"
| "grpSolid Eol ic n = True"
| "grpSolid WordB ic n = True"
| "grpSolid Eps ic n = True"

primrec setsGroup :: "rx \<Rightarrow> nat \<Rightarrow> bool" where
  "setsGroup (Cls P) n = False"
| "setsGroup (NCls P) n = False"
| "setsGroup (Lit w) n = False"
| "setsGroup (Seq r1 r2) n = (setsGroup r2 n \<or> (setsGroup r1 n \<and> n \<notin> set (groupsOf r2)))"
| "setsGroup (Alt r1 r2) n = (setsGroup r1 n \<and> setsGroup r2 n)"
| "setsGroup (Rep mn mx greedy r) n = (minIter mn mx = 1 \<and> setsGroup r n)"
| "setsGroup (Grp k r) n = (k = n \<or> setsGroup r n)"
| "setsGroup Bol n = False"
| "setsGroup Eol n = False"
| "setsGroup WordB n = False"
| "setsGroup Eps n = False"

text \<open>A match object that comes from a pattern: its text and groups are what the pattern
  consumed and captured at some position of some input.\<close>

definition matchOf :: "rx \<Rightarrow> bool \<Rightarrow> bool \<Rightarrow> jsmatch \<Rightarrow> bool" where
  "matchOf r ic ml m =
     (\<exists>p s y. y \<in> sem r ic ml (MState p (matched m @ s) (\<lambda>n. None)) \<and> rest y = s \<and>
              groups m = caps y)"

section \<open>The resume parser (resumeParser.js)\<close>

subsection \<open>The profile\<close>

text \<open>\<open>this.userData\<close> and \<open>this.missingFields\<close> of a \<open>ResumeParser\<close>. A field the source
  sets to a string or \<open>null\<close> is a \<^typ>\<open>string option\<close>.\<close>

record personalInfo =
  fullName :: "string option"
  email :: "string option"
  phone :: "string option"
  location :: "string option"
  dateOfBirth :: "string option"

record educationEntry =
  institution :: string
  degree :: "string option"
  dates :: "string option"
  gpa :: "string option"

record experienceEntry =
  company :: string
  title :: "string option"
  expDates :: "string option"        \<comment> \<open>the property \<open>dates\<close> of an experience entry\<close>
  description :: string

record languageEntry =
  language :: string
  proficiency :: string

record certificationEntry =
  certName :: string                 \<comment> \<open>the property \<open>name\<close>\<close>
  certDate :: "string option"        \<comment> \<open>the property \<open>date\<close>\<close>
  issuer :: "string option"

record userData =
  personalInfo :: personalInfo
  education :: "educationEntry list"
  experience :: "experienceEntry list"
  skills :: "string list"
  languages :: "languageEntry list"
  certifications :: "certificationEntry list"

record resumeParser =
  userData :: userData
  missingFields :: "string list"

text \<open>The state the constructor sets up.\<close>

definition newResumeParser :: resumeParser where
  "newResumeParser =
     \<lparr>userData =
        \<lparr>personalInfo = \<lparr>fullName = None, email = None, phone = None, location = None,
                          dateOfBirth = None\<rparr>,
         education = [], experience = [], skills = [], languages = [], certifications = []\<rparr>,
      missingFields = []\<rparr>"

subsection \<open>extractPersonalInfo\<close>

definition nameRegex :: regexp where   \<comment> \<open>\<open>/^([A-Z][a-z]+ [A-Z][a-z]+)/m\<close>\<close>
  "nameRegex =
     \<lparr>pattern = seqs [Bol, Grp 1 (seqs [rxUpperAZ, rxPlus rxLowerAZ, Lit '' '', rxUpperAZ,
                                       rxPlus rxLowerAZ])],
      ignoreCase = False, multiline = True\<rparr>"

definition emailRegex :: regexp where
  \<comment> \<open>\<open>/\b[A-Za-z0-9._%+-]+@[A-Za-z0-9.-]+\.[A-Z|a-z]{2,}\b/\<close>\<close>
  "emailRegex =
     \<lparr>pattern = seqs [WordB,
        rxPlus (Cls (\<lambda>c. isUpperAZ c \<or> isLowerAZ c \<or> isDigit c \<or> c \<in> set ''._%+-'')),
        Lit ''@'',
        rxPlus (Cls (\<lambda>c. isUpperAZ c \<or> isLowerAZ c \<or> isDigit c \<or> c \<in> set ''.-'')),
        Lit ''.'',
        rxAtLeast 2 (Cls (\<lambda>c. isUpperAZ c \<or> c = CHR ''|'' \<or> isLowerAZ c)),
        WordB],
      ignoreCase = False, multiline = False\<rparr>"

definition phoneRegex :: regexp where
  \<comment> \<open>\<open>/\b(\+\d{1,3}[-\s]?)?\(?\d{3}\)?[-.\s]?\d{3}[-.\s]?\d{4}\b/\<close>\<close>
  "phoneRegex =
     \<lparr>pattern = seqs [WordB,
        rxOpt (Grp 1 (seqs [Lit ''+'', rxBetween 1 3 rxDigit,
                            rxOpt (Cls (\<lambda>c. c = CHR ''-'' \<or> isSpace c))])),
        rxOpt (Lit ''(''), rxTimes 3 rxDigit, rxOpt (Lit '')''),
        rxOpt (Cls (\<lambda>c. c \<in> set ''-.'' \<or> isSpace c)),
        rxTimes 3 rxDigit,
        rxOpt (Cls (\<lambda>c. c \<in> set ''-.'' \<or> isSpace c)),
        rxTimes 4 rxDigit,
        WordB],
      ignoreCase = False, multiline = False\<rparr>"

definition locationRegex :: regexp where
  \<comment> \<open>\<open>/(?:Address|Location):\s*([^,\n]+,\s*[A-Za-z\s]+(?:,\s*[A-Z]{2})?)|\b([A-Za-z\s]+, [A-Z]{2})\b/i\<close>\<close>
  "locationRegex =
     \<lparr>pattern =
        Alt (seqs [alts [Lit ''Address'', Lit ''Location''], Lit '':'', rxStar rxSpace,
                   Grp 1 (seqs [rxPlus (NCls (\<lambda>c. c = CHR '','' \<or> c = CHR 0x0A)), Lit '','',
                                rxStar rxSpace, rxPlus rxLetterOrSpace,
                                rxOpt (seqs [Lit '','', rxStar rxSpace, rxTimes 2 rxUpperAZ])])])
            (seqs [WordB, Grp 2 (seqs [rxPlus rxLetterOrSpace, Lit '', '', rxTimes 2 rxUpperAZ]),
                   WordB]),
      ignoreCase = True, multiline = False\<rparr>"

definition dobRegex :: regexp where
  \<comment> \<open>\<open>/(?:Date of Birth|DOB|Born):\s*(\d{1,2}[-/]\d{1,2}[-/]\d{2,4})/i\<close>\<close>
  "dobRegex =
     \<lparr>pattern = seqs [alts [Lit ''Date of Birth'', Lit ''DOB'', Lit ''Born''], Lit '':'',
        rxStar rxSpace,
        Grp 1 (seqs [rxBetween 1 2 rxDigit, Cls (\<lambda>c. c \<in> set ''-/''), rxBetween 1 2 rxDigit,
                     Cls (\<lambda>c. c \<in> set ''-/''), rxBetween 2 4 rxDigit])],
      ignoreCase = True, multiline = False\<rparr>"

text \<open>\<open>a || b\<close> for values that are strings or \<open>undefined\<close>.\<close>

definition jsOr :: "string option \<Rightarrow> string option \<Rightarrow> string option" where
  "jsOr a b = (if truthy a then a else b)"

text \<open>Each of the five fields is assigned when its pattern matches and is left as it
  was when it does not. A group that took no part in a match is \<open>undefined\<close> in the
  source; the model writes \<open>None\<close> for it, as for \<open>null\<close>.\<close>

definition extractPersonalInfo :: "userData \<Rightarrow> string \<Rightarrow> userData" where
  "extractPersonalInfo ud text =
     (let pi0 = personalInfo ud;
          pi1 = (case regexMatch nameRegex text of
                   Some nameMatch \<Rightarrow> pi0\<lparr>fullName := groups nameMatch 1\<rparr>
                 | None \<Rightarrow> pi0);
          pi2 = (case regexMatch emailRegex text of
                   Some emailMatch \<Rightarrow> pi1\<lparr>email := Some (matched emailMatch)\<rparr>
                 | None \<Rightarrow> pi1);
          pi3 = (case regexMatch phoneRegex text of
                   Some phoneMatch \<Rightarrow> pi2\<lparr>phone := Some (matched phoneMatch)\<rparr>
                 | None \<Rightarrow> pi2);
          pi4 = (case regexMatch locationRegex text of
                   Some locationMatch \<Rightarrow>
                     pi3\<lparr>location := jsOr (groups locationMatch 1) (groups locationMatch 2)\<rparr>
                 | None \<Rightarrow> pi3);
          pi5 = (case regexMatch dobRegex text of
                   Some dobMatch \<Rightarrow> pi4\<lparr>dateOfBirth := groups dobMatch 1\<rparr>
                 | None \<Rightarrow> pi4)
      in ud\<lparr>personalInfo := pi5\<rparr>)"

subsection \<open>The sections\<close>

text \<open>Every section pattern has the shape
  \<open>/(?:OPENING|...)(?:[\s\S]*?)(?:CLOSING|...|$)/i\<close>.\<close>

definition sectionRegex :: "string list \<Rightarrow> string list \<Rightarrow> regexp" where
  "sectionRegex openings closings =
     \<lparr>pattern = seqs [alts (map Lit openings), rxLazyStar rxAny, alts (map Lit closings @ [Eol])],
      ignoreCase = True, multiline = False\<rparr>"

definition educationSectionRegex :: regexp where
  "educationSectionRegex =
     sectionRegex [''EDUCATION'', ''ACADEMIC BACKGROUND'', ''QUALIFICATIONS'']
       [''EXPERIENCE'', ''EMPLOYMENT'', ''WORK'', ''SKILLS'']"

definition experienceSectionRegex :: regexp where
  "experienceSectionRegex =
     sectionRegex [''EXPERIENCE'', ''EMPLOYMENT'', ''WORK HISTORY'', ''PROFESSIONAL BACKGROUND'']
       [''EDUCATION'', ''SKILLS'', ''AWARDS'', ''LANGUAGES'']"

definition skillsSectionRegex :: regexp where
  "skillsSectionRegex =
     sectionRegex [''SKILLS'', ''TECHNICAL SKILLS'', ''CORE COMPETENCIES'']
       [''LANGUAGES'', ''EXPERIENCE'', ''EDUCATION'', ''CERTIFICATIONS'']"

definition languageSectionRegex :: regexp where
  "languageSectionRegex =
     sectionRegex [''LANGUAGES'', ''LANGUAGE PROFICIENCY'']
       [''SKILLS'', ''EXPERIENCE'', ''EDUCATION'', ''CERTIFICATIONS'']"

definition certSectionRegex :: regexp where
  "certSectionRegex =
     sectionRegex [''CERTIFICATIONS'', ''CERTIFICATES'', ''LICENSES'']
       [''EDUCATION'', ''EXPERIENCE'', ''SKILLS'', ''LANGUAGES'']"

subsection \<open>extractEducation\<close>

definition universityRegex :: regexp where
  \<comment> \<open>\<open>/([A-Za-z\s]+University|College|Institute|School)(?:[\s\S]*?)(?:\d{4})/gi\<close>\<close>
  "universityRegex =
     \<lparr>pattern = seqs [Grp 1 (alts [Seq (rxPlus rxLetterOrSpace) (Lit ''University''),
                                    Lit ''College'', Lit ''Institute'', Lit ''School'']),
                      rxLazyStar rxAny, rxTimes 4 rxDigit],
      ignoreCase = True, multiline = False\<rparr>"

definition degreeRegex :: regexp where
  \<comment> \<open>\<open>/(?:Bachelor|Master|Ph\.D|MBA|B\.S\.|M\.S\.|B\.A\.|M\.A\.|B\.Eng|M\.Eng|B\.Tech|M\.Tech)[^\n\r]*/i\<close>\<close>
  "degreeRegex =
     \<lparr>pattern = seqs [alts (map Lit [''Bachelor'', ''Master'', ''Ph.D'', ''MBA'', ''B.S.'', ''M.S.'',
                         ''B.A.'', ''M.A.'', ''B.Eng'', ''M.Eng'', ''B.Tech'', ''M.Tech'']),
                      rxStar (NCls (\<lambda>c. c = CHR 0x0A \<or> c = CHR 0x0D))],
      ignoreCase = True, multiline = False\<rparr>"

definition dateRegex :: regexp where
  \<comment> \<open>\<open>/(?:\d{4}\s*-\s*\d{4}|\d{4}\s*-\s*Present|\d{4})/i\<close>\<close>
  "dateRegex =
     \<lparr>pattern = alts [seqs [rxTimes 4 rxDigit, rxStar rxSpace, Lit ''-'', rxStar rxSpace,
                            rxTimes 4 rxDigit],
                      seqs [rxTimes 4 rxDigit, rxStar rxSpace, Lit ''-'', rxStar rxSpace,
                            Lit ''Present''],
                      rxTimes 4 rxDigit],
      ignoreCase = True, multiline = False\<rparr>"

definition gpaRegex :: regexp where
  \<comment> \<open>\<open>/GPA:?\s*([0-9](?:\.[0-9]+)?)\s*\/?\s*([0-9](?:\.[0-9]+)?)?/i\<close>\<close>
  "gpaRegex =
     \<lparr>pattern = seqs [Lit ''GPA'', rxOpt (Lit '':''), rxStar rxSpace,
                      Grp 1 (seqs [rxDigit, rxOpt (seqs [Lit ''.'', rxPlus rxDigit])]),
                      rxStar rxSpace, rxOpt (Lit ''/''), rxStar rxSpace,
                      rxOpt (Grp 2 (seqs [rxDigit, rxOpt (seqs [Lit ''.'', rxPlus rxDigit])]))],
      ignoreCase = True, multiline = False\<rparr>"

text \<open>The entry the loop body pushes for one match of \<open>universityRegex\<close> in the section
  text.\<close>

definition educationEntryOf :: "string \<Rightarrow> jsmatch \<Rightarrow> educationEntry" where
  "educationEntryOf eduText uniMatch =
     (let contextLines = substring eduText (index uniMatch - 100)
                           (min (length eduText) (index uniMatch + 300));
          degreeMatch = regexMatch degreeRegex contextLines;
          dateMatch = regexMatch dateRegex contextLines;
          gpaMatch = regexMatch gpaRegex contextLines
      in \<lparr>institution = trim (matched uniMatch),
          degree = (case degreeMatch of Some m \<Rightarrow> Some (trim (matched m)) | None \<Rightarrow> None),
          dates = (case dateMatch of Some m \<Rightarrow> Some (trim (matched m)) | None \<Rightarrow> None),
          gpa = (case gpaMatch of
                   Some m \<Rightarrow>
                     Some (strOfUndefinable (groups m 1) @
                           (if truthy (groups m 2) then ''/'' @ strOfUndefinable (groups m 2)
                            else []))
                 | None \<Rightarrow> None)\<rparr>)"

definition extractEducation :: "userData \<Rightarrow> string \<Rightarrow> jsAbort + userData" where
  "extractEducation ud text =
     (case regexMatch educationSectionRegex text of
        None \<Rightarrow> Inr ud
      | Some educationSection \<Rightarrow>
          (let eduText = matched educationSection in
           case execAll universityRegex eduText of
             Inl e \<Rightarrow> Inl e
           | Inr uniMatches \<Rightarrow>
               Inr (foldl (\<lambda>u uniMatch. u\<lparr>education := education u @ [educationEntryOf eduText uniMatch]\<rparr>)
                      ud uniMatches)))"

subsection \<open>extractExperience\<close>

definition companyRegex :: regexp where
  \<comment> \<open>\<open>/([A-Za-z0-9\s,\.]+)(?:[\s\S]*?)(?:\d{4}\s*-\s*(?:\d{4}|Present))/gi\<close>\<close>
  "companyRegex =
     \<lparr>pattern = seqs [Grp 1 (rxPlus (Cls (\<lambda>c. isUpperAZ c \<or> isLowerAZ c \<or> isDigit c \<or> isSpace c
                                              \<or> c \<in> set '',.''))),
                      rxLazyStar rxAny,
                      seqs [rxTimes 4 rxDigit, rxStar rxSpace, Lit ''-'', rxStar rxSpace,
                            alts [rxTimes 4 rxDigit, Lit ''Present'']]],
      ignoreCase = True, multiline = False\<rparr>"

definition titleRegex :: regexp where
  \<comment> \<open>\<open>/(?:[\n\r]|^)([A-Za-z\s]+)(?:[\n\r]|$)/i\<close>\<close>
  "titleRegex =
     \<lparr>pattern = seqs [alts [Cls (\<lambda>c. c = CHR 0x0A \<or> c = CHR 0x0D), Bol],
                      Grp 1 (rxPlus rxLetterOrSpace),
                      alts [Cls (\<lambda>c. c = CHR 0x0A \<or> c = CHR 0x0D), Eol]],
      ignoreCase = True, multiline = False\<rparr>"

text \<open>\<open>titleMatch[1].trim()\<close> and its like: reading \<open>trim\<close> off a group that took no
  part in the match is a \<open>TypeError\<close>.\<close>

definition trimGroup :: "jsmatch \<Rightarrow> nat \<Rightarrow> jsAbort + string" where
  "trimGroup m n = (case groups m n of None \<Rightarrow> Inl TypeError | Some s \<Rightarrow> Inr (trim s))"

definition experienceEntryOf :: "string \<Rightarrow> jsmatch \<Rightarrow> jsAbort + experienceEntry" where
  "experienceEntryOf expText companyMatch =
     (let contextLines = substring expText (index companyMatch - 50)
                           (min (length expText) (index companyMatch + 400));
          titleMatch = regexMatch titleRegex contextLines;
          dateMatch = regexMatch dateRegex contextLines;
          descStart = indexOf contextLines
                        (case dateMatch of
                           Some d \<Rightarrow> matched d
                         | None \<Rightarrow> (case titleMatch of Some t \<Rightarrow> matched t | None \<Rightarrow> []));
          descr = (case descStart of
                     Some k \<Rightarrow> trim (substringFrom contextLines (k + 20))
                   | None \<Rightarrow> [])
      in case (case titleMatch of
                 Some t \<Rightarrow> (case trimGroup t 1 of Inl e \<Rightarrow> Inl e | Inr s \<Rightarrow> Inr (Some s))
               | None \<Rightarrow> Inr None) of
           Inl e \<Rightarrow> Inl e
         | Inr titleValue \<Rightarrow>
             Inr \<lparr>company = trim (matched companyMatch),
                  title = titleValue,
                  expDates = (case dateMatch of Some d \<Rightarrow> Some (trim (matched d)) | None \<Rightarrow> None),
                  description = substring descr 0 300\<rparr>)"

text \<open>A loop body that can throw, run over the matches in order: the first exception ends
  the loop.\<close>

fun pushAll :: "('m \<Rightarrow> jsAbort + 'e) \<Rightarrow> 'e list \<Rightarrow> 'm list \<Rightarrow> jsAbort + 'e list" where
  "pushAll f acc [] = Inr acc"
| "pushAll f acc (m # ms) =
     (case f m of Inl e \<Rightarrow> Inl e | Inr entry \<Rightarrow> pushAll f (acc @ [entry]) ms)"

definition extractExperience :: "userData \<Rightarrow> string \<Rightarrow> jsAbort + userData" where
  "extractExperience ud text =
     (case regexMatch experienceSectionRegex text of
        None \<Rightarrow> Inr ud
      | Some experienceSection \<Rightarrow>
          (let expText = matched experienceSection in
           case execAll companyRegex expText of
             Inl e \<Rightarrow> Inl e
           | Inr companyMatches \<Rightarrow>
               (case pushAll (experienceEntryOf expText) (experience ud) companyMatches of
                  Inl e \<Rightarrow> Inl e
                | Inr entries \<Rightarrow> Inr (ud\<lparr>experience := entries\<rparr>))))"

subsection \<open>extractSkills\<close>

definition skillSeparator :: "char \<Rightarrow> bool" where   \<comment> \<open>\<open>/[,\<bullet>\<cdot>]/\<close>; the middle dot is \<open>U+00B7\<close>\<close>
  "skillSeparator c = (c = CHR '','' \<or> c = CHR 0xB7)"

definition headingOnlyRegex :: regexp where
  \<comment> \<open>\<open>/^(?:LANGUAGES|EXPERIENCE|EDUCATION|CERTIFICATIONS)$/i\<close>\<close>
  "headingOnlyRegex =
     \<lparr>pattern = seqs [Bol, alts (map Lit [''LANGUAGES'', ''EXPERIENCE'', ''EDUCATION'',
                                         ''CERTIFICATIONS'']), Eol],
      ignoreCase = True, multiline = False\<rparr>"

definition skillsListOf :: "string \<Rightarrow> string list" where
  "skillsListOf skillsText =
     filter (\<lambda>skill. length skill > 0 \<and> \<not> regexTest headingOnlyRegex skill)
       (map trim (splitChars skillSeparator skillsText))"

definition extractSkills :: "userData \<Rightarrow> string \<Rightarrow> userData" where
  "extractSkills ud text =
     (case regexMatch skillsSectionRegex text of
        None \<Rightarrow> ud
      | Some skillsSection \<Rightarrow> ud\<lparr>skills := setDedupe (skillsListOf (matched skillsSection))\<rparr>)"

subsection \<open>extractLanguages\<close>

definition commonLanguages :: "string list" where
  "commonLanguages =
     [''English'', ''Spanish'', ''French'', ''German'', ''Italian'', ''Chinese'', ''Japanese'',
      ''Russian'', ''Arabic'', ''Portuguese'', ''Hindi'', ''Bengali'', ''Urdu'', ''Dutch'',
      ''Turkish'']"

definition proficiencyWords :: rx where
  \<comment> \<open>\<open>(?:fluent|native|professional|beginner|intermediate|advanced|proficient|basic)\<close>\<close>
  "proficiencyWords =
     alts (map Lit [''fluent'', ''native'', ''professional'', ''beginner'', ''intermediate'',
                    ''advanced'', ''proficient'', ''basic''])"

definition langRegex :: "string \<Rightarrow> regexp" where
  \<comment> \<open>\<open>new RegExp(`${language}[\\s\\S]*?(?:fluent|...|basic)`, 'i')\<close>\<close>
  "langRegex lang =
     \<lparr>pattern = seqs [Lit lang, rxLazyStar rxAny, proficiencyWords],
      ignoreCase = True, multiline = False\<rparr>"

definition langContextRegex :: "string \<Rightarrow> regexp" where
  \<comment> \<open>\<open>new RegExp(`${language}[\\s\\S]{0,30}(?:fluent|...|basic)`, 'i')\<close>\<close>
  "langContextRegex lang =
     \<lparr>pattern = seqs [Lit lang, rxBetween 0 30 rxAny, proficiencyWords],
      ignoreCase = True, multiline = False\<rparr>"

definition proficiencyRegex :: regexp where
  "proficiencyRegex = \<lparr>pattern = proficiencyWords, ignoreCase = True, multiline = False\<rparr>"

text \<open>What one round of the \<open>forEach\<close> over \<open>commonLanguages\<close> pushes: in a languages
  section, and in the whole text when there is no such section.\<close>

definition sectionLanguageEntries :: "string \<Rightarrow> string \<Rightarrow> languageEntry list" where
  "sectionLanguageEntries langText lang =
     (case regexMatch (langRegex lang) langText of
        Some langMatch \<Rightarrow>
          [\<lparr>language = lang, proficiency = trim (removeFirst (matched langMatch) lang)\<rparr>]
      | None \<Rightarrow>
          if includesStr langText lang
          then [\<lparr>language = lang, proficiency = ''Not specified''\<rparr>]
          else [])"

definition textLanguageEntries :: "string \<Rightarrow> string \<Rightarrow> languageEntry list" where
  "textLanguageEntries text lang =
     (if includesStr text lang then
        (case regexMatch (langContextRegex lang) text of
           Some langContextMatch \<Rightarrow>
             [\<lparr>language = lang,
               proficiency =
                 (case regexMatch proficiencyRegex (matched langContextMatch) of
                    Some proficiencyMatch \<Rightarrow> trim (matched proficiencyMatch)
                  | None \<Rightarrow> ''Not specified'')\<rparr>]
         | None \<Rightarrow> [])
      else [])"

definition extractLanguages :: "userData \<Rightarrow> string \<Rightarrow> userData" where
  "extractLanguages ud text =
     (case regexMatch languageSectionRegex text of
        Some languageSection \<Rightarrow>
          foldl (\<lambda>u lang. u\<lparr>languages := languages u @ sectionLanguageEntries (matched languageSection) lang\<rparr>)
            ud commonLanguages
      | None \<Rightarrow>
          foldl (\<lambda>u lang. u\<lparr>languages := languages u @ textLanguageEntries text lang\<rparr>)
            ud commonLanguages)"

subsection \<open>extractCertifications\<close>

definition certDatePattern :: rx where
  \<comment> \<open>\<open>(?:\d{4}|\d{2}\/\d{2}\/\d{4}|\d{2}-\d{2}-\d{4})\<close>\<close>
  "certDatePattern =
     alts [rxTimes 4 rxDigit,
           seqs [rxTimes 2 rxDigit, Lit ''/'', rxTimes 2 rxDigit, Lit ''/'', rxTimes 4 rxDigit],
           seqs [rxTimes 2 rxDigit, Lit ''-'', rxTimes 2 rxDigit, Lit ''-'', rxTimes 4 rxDigit]]"

definition certRegex :: regexp where
  \<comment> \<open>\<open>/([A-Za-z\s]+(?:Certification|Certificate|License))(?:[\s\S]*?)(?:\d{4}|\d{2}\/\d{2}\/\d{4}|\d{2}-\d{2}-\d{4})?/gi\<close>\<close>
  "certRegex =
     \<lparr>pattern = seqs [Grp 1 (seqs [rxPlus rxLetterOrSpace,
                                   alts [Lit ''Certification'', Lit ''Certificate'', Lit ''License'']]),
                      rxLazyStar rxAny, rxOpt certDatePattern],
      ignoreCase = True, multiline = False\<rparr>"

definition certDateRegex :: regexp where
  \<comment> \<open>\<open>/(?:\d{4}|\d{2}\/\d{2}\/\d{4}|\d{2}-\d{2}-\d{4})/i\<close>\<close>
  "certDateRegex = \<lparr>pattern = certDatePattern, ignoreCase = True, multiline = False\<rparr>"

definition issuerRegex :: regexp where
  \<comment> \<open>\<open>/(?:issued by|from|through)\s+([A-Za-z\s]+)/i\<close>\<close>
  "issuerRegex =
     \<lparr>pattern = seqs [alts [Lit ''issued by'', Lit ''from'', Lit ''through''], rxPlus rxSpace,
                      Grp 1 (rxPlus rxLetterOrSpace)],
      ignoreCase = True, multiline = False\<rparr>"

definition certificationEntryOf :: "string \<Rightarrow> jsmatch \<Rightarrow> jsAbort + certificationEntry" where
  "certificationEntryOf certText certMatch =
     (let contextLines = substring certText (index certMatch - 50)
                           (min (length certText) (index certMatch + 200));
          dateMatch = regexMatch certDateRegex contextLines;
          issuerMatch = regexMatch issuerRegex contextLines
      in case trimGroup certMatch 1 of
           Inl e \<Rightarrow> Inl e
         | Inr nameValue \<Rightarrow>
             (case (case issuerMatch of
                      Some m \<Rightarrow> (case trimGroup m 1 of Inl e \<Rightarrow> Inl e | Inr s \<Rightarrow> Inr (Some s))
                    | None \<Rightarrow> Inr None) of
                Inl e \<Rightarrow> Inl e
              | Inr issuerValue \<Rightarrow>
                  Inr \<lparr>certName = nameValue,
                       certDate = (case dateMatch of Some d \<Rightarrow> Some (trim (matched d)) | None \<Rightarrow> None),
                       issuer = issuerValue\<rparr>))"

definition extractCertifications :: "userData \<Rightarrow> string \<Rightarrow> jsAbort + userData" where
  "extractCertifications ud text =
     (case regexMatch certSectionRegex text of
        None \<Rightarrow> Inr ud
      | Some certSection \<Rightarrow>
          (let certText = matched certSection in
           case execAll certRegex certText of
             Inl e \<Rightarrow> Inl e
           | Inr certMatches \<Rightarrow>
               (case pushAll (certificationEntryOf certText) (certifications ud) certMatches of
                  Inl e \<Rightarrow> Inl e
                | Inr entries \<Rightarrow> Inr (ud\<lparr>certifications := entries\<rparr>))))"

subsection \<open>extractInformation\<close>

definition extractInformation :: "userData \<Rightarrow> string \<Rightarrow> jsAbort + userData" where
  "extractInformation ud text =
     (case extractEducation (extractPersonalInfo ud text) text of
        Inl e \<Rightarrow> Inl e
      | Inr ud2 \<Rightarrow>
          (case extractExperience ud2 text of
             Inl e \<Rightarrow> Inl e
           | Inr ud3 \<Rightarrow> extractCertifications (extractLanguages (extractSkills ud3 text) text) text))"

subsection \<open>JSON.stringify of the profile\<close>

text \<open>\<open>JSON.stringify\<close> quotes a string after QuoteJSONString: the short escapes, a
  \<open>\u00XX\<close> escape for the other control characters, everything else as it is.\<close>

definition hexDigit :: "nat \<Rightarrow> char" where
  "hexDigit n = ''0123456789abcdef'' ! (n mod 16)"

definition jsonEscape :: "char \<Rightarrow> string" where
  "jsonEscape c =
     (if c = CHR 0x08 then [CHR 0x5C, CHR ''b'']
      else if c = CHR 0x09 then [CHR 0x5C, CHR ''t'']
      else if c = CHR 0x0A then [CHR 0x5C, CHR ''n'']
      else if c = CHR 0x0C then [CHR 0x5C, CHR ''f'']
      else if c = CHR 0x0D then [CHR 0x5C, CHR ''r'']
      else if c = CHR 0x22 then [CHR 0x5C, CHR 0x22]
      else if c = CHR 0x5C then [CHR 0x5C, CHR 0x5C]
      else if c < CHR 0x20 then
        [CHR 0x5C, CHR ''u'', CHR ''0'', CHR ''0'', hexDigit (of_char c div 16), hexDigit (of_char c)]
      else [c])"

definition jsonQuote :: "string \<Rightarrow> string" where
  "jsonQuote s = CHR 0x22 # concat (map jsonEscape s) @ [CHR 0x22]"

definition jsonNullable :: "string option \<Rightarrow> string" where
  "jsonNullable v = (case v of None \<Rightarrow> ''null'' | Some s \<Rightarrow> jsonQuote s)"

definition jsonObject :: "(string \<times> string) list \<Rightarrow> string" where
  "jsonObject members =
     ''{'' @ joinWith '','' (map (\<lambda>(k, v). jsonQuote k @ '':'' @ v) members) @ ''}''"

definition jsonArray :: "string list \<Rightarrow> string" where
  "jsonArray items = ''['' @ joinWith '','' items @ '']''"

text \<open>\<open>Object.entries(this.userData.personalInfo)\<close>: the properties in the order the
  constructor created them.\<close>

definition personalInfoEntries :: "personalInfo \<Rightarrow> (string \<times> string option) list" where
  "personalInfoEntries p =
     [(''fullName'', fullName p), (''email'', email p), (''phone'', phone p),
      (''location'', location p), (''dateOfBirth'', dateOfBirth p)]"

definition jsonStringify :: "userData \<Rightarrow> string" where
  "jsonStringify ud =
     jsonObject
       [(''personalInfo'',
           jsonObject (map (\<lambda>(k, v). (k, jsonNullable v)) (personalInfoEntries (personalInfo ud)))),
        (''education'',
           jsonArray (map (\<lambda>e. jsonObject
              [(''institution'', jsonQuote (institution e)), (''degree'', jsonNullable (degree e)),
               (''dates'', jsonNullable (dates e)), (''gpa'', jsonNullable (gpa e))]) (education ud))),
        (''experience'',
           jsonArray (map (\<lambda>e. jsonObject
              [(''company'', jsonQuote (company e)), (''title'', jsonNullable (title e)),
               (''dates'', jsonNullable (expDates e)), (''description'', jsonQuote (description e))])
              (experience ud))),
        (''skills'', jsonArray (map jsonQuote (skills ud))),
        (''languages'',
           jsonArray (map (\<lambda>e. jsonObject
              [(''language'', jsonQuote (language e)), (''proficiency'', jsonQuote (proficiency e))])
              (languages ud))),
        (''certifications'',
           jsonArray (map (\<lambda>e. jsonObject
              [(''name'', jsonQuote (certName e)), (''date'', jsonNullable (certDate e)),
               (''issuer'', jsonNullable (issuer e))]) (certifications ud)))]"

subsection \<open>identifyMissingFields\<close>

definition workAuthorizationRegex :: regexp where
  \<comment> \<open>\<open>/(?:citizen|permanent resident|work authorization|visa)/i\<close>\<close>
  "workAuthorizationRegex =
     \<lparr>pattern = alts (map Lit [''citizen'', ''permanent resident'', ''work authorization'', ''visa'']),
      ignoreCase = True, multiline = False\<rparr>"

definition socialMediaRegex :: regexp where
  \<comment> \<open>\<open>/(?:linkedin|github|twitter|facebook|instagram)/i\<close>\<close>
  "socialMediaRegex =
     \<lparr>pattern = alts (map Lit [''linkedin'', ''github'', ''twitter'', ''facebook'', ''instagram'']),
      ignoreCase = True, multiline = False\<rparr>"

text \<open>The method pushes onto \<open>this.missingFields\<close>, statement by statement.\<close>

definition identifyMissingFields :: "resumeParser \<Rightarrow> resumeParser" where
  "identifyMissingFields p =
     (let ud = userData p;
          resumeText = toLowerCase (jsonStringify ud);
          m1 = foldl (\<lambda>m (key, v). if \<not> truthy v then m @ [key] else m) (missingFields p)
                 (personalInfoEntries (personalInfo ud));
          m2 = (if length (education ud) = 0 then m1 @ [''education'']
                else
                  (let incompleteEducation =
                         filter (\<lambda>edu. \<not> truthy (degree edu) \<or> \<not> truthy (dates edu)) (education ud)
                   in if length incompleteEducation > 0 then m1 @ [''completeEducationDetails'']
                      else m1));
          m3 = (if length (experience ud) = 0 then m2 @ [''workExperience'']
                else
                  (let incompleteExperience =
                         filter (\<lambda>e. \<not> truthy (title e) \<or> \<not> truthy (expDates e)) (experience ud)
                   in if length incompleteExperience > 0
                      then m2 @ [''completeWorkExperienceDetails'']
                      else m2));
          m4 = (if length (skills ud) = 0 then m3 @ [''skills''] else m3);
          m5 = (if length (languages ud) = 0 then m4 @ [''languages''] else m4);
          m6 = m5 @ [''references''];
          m7 = (if regexMatch workAuthorizationRegex resumeText = None
                then m6 @ [''workAuthorizationStatus''] else m6);
          m8 = (if regexMatch socialMediaRegex resumeText = None
                then m7 @ [''socialMediaProfiles''] else m7)
      in p\<lparr>missingFields := m8\<rparr>)"

subsection \<open>parseResume\<close>

text \<open>
  \<open>path.extname\<close> of Node.js (POSIX flavour), after its documentation: the extension of
  the last path component, trailing slashes ignored, runs from the last dot to the end;
  it is empty when there is no dot, when the only dot is the first character of the
  component, and for the component \<open>..\<close>.
\<close>

definition basenameOf :: "string \<Rightarrow> string" where
  "basenameOf path =
     rev (takeWhile (\<lambda>c. c \<noteq> CHR ''/'') (dropWhile (\<lambda>c. c = CHR ''/'') (rev path)))"

definition extname :: "string \<Rightarrow> string" where
  "extname path =
     (let base = basenameOf path;
          ext = rev (takeWhile (\<lambda>c. c \<noteq> CHR ''.'') (rev base));
          stem = take (length base - length ext - 1) base
      in if CHR ''.'' \<notin> set base \<or> stem = [] \<or> base = ''..'' then []
         else CHR ''.'' # ext)"

text \<open>
  The decoders are libraries outside the repository (\<open>fs\<close>, \<open>pdf-parse\<close>, \<open>mammoth\<close>):
  each is a function from the path to the text it returns or the error it throws.
\<close>

record 'e decoders =
  pdfText :: "string \<Rightarrow> 'e + string"
  docxText :: "string \<Rightarrow> 'e + string"
  txtText :: "string \<Rightarrow> 'e + string"

datatype 'e parseError =
    UnsupportedFileFormat                \<comment> \<open>\<open>new Error('Unsupported file format')\<close>\<close>
  | DecoderError 'e
  | Abort jsAbort

record parseResult =
  resultUserData :: userData
  resultMissingFields :: "string list"

text \<open>\<open>parseResume\<close> returns the parser as well (the method mutates it) and the object it
  resolves to; a thrown error is \<open>Inl\<close>.\<close>

definition parseText :: "resumeParser \<Rightarrow> string \<Rightarrow> 'e parseError + resumeParser \<times> parseResult" where
  "parseText p text =
     (case extractInformation (userData p) text of
        Inl a \<Rightarrow> Inl (Abort a)
      | Inr ud \<Rightarrow>
          (let p' = identifyMissingFields (p\<lparr>userData := ud\<rparr>)
           in Inr (p', \<lparr>resultUserData = userData p', resultMissingFields = missingFields p'\<rparr>)))"

definition parseResume ::
  "'e decoders \<Rightarrow> resumeParser \<Rightarrow> string \<Rightarrow> 'e parseError + resumeParser \<times> parseResult" where
  "parseResume env p filePath =
     (let fileExt = toLowerCase (extname filePath) in
      if fileExt = ''.pdf'' then
        (case pdfText env filePath of Inl e \<Rightarrow> Inl (DecoderError e) | Inr text \<Rightarrow> parseText p text)
      else if fileExt = ''.docx'' then
        (case docxText env filePath of Inl e \<Rightarrow> Inl (DecoderError e) | Inr text \<Rightarrow> parseText p text)
      else if fileExt = ''.txt'' then
        (case txtText env filePath of Inl e \<Rightarrow> Inl (DecoderError e) | Inr text \<Rightarrow> parseText p text)
      else Inl UnsupportedFileFormat)"

section \<open>What a text contributes to the profile\<close>

text \<open>
  The extractors read the profile only to write it back: what they add is a function of
  the text alone. The definitions below name these contributions; the lemmas of the next
  sections show that each extractor is the profile it was given, with the contribution
  of the text stored (personal information, skills) or appended (the entry lists).
\<close>

definition personalInfoOf :: "personalInfo \<Rightarrow> string \<Rightarrow> personalInfo" where
  "personalInfoOf pi0 text =
     (let pi1 = (case regexMatch nameRegex text of
                   Some nameMatch \<Rightarrow> pi0\<lparr>fullName := groups nameMatch 1\<rparr>
                 | None \<Rightarrow> pi0);
          pi2 = (case regexMatch emailRegex text of
                   Some emailMatch \<Rightarrow> pi1\<lparr>email := Some (matched emailMatch)\<rparr>
                 | None \<Rightarrow> pi1);
          pi3 = (case regexMatch phoneRegex text of
                   Some phoneMatch \<Rightarrow> pi2\<lparr>phone := Some (matched phoneMatch)\<rparr>
                 | None \<Rightarrow> pi2);
          pi4 = (case regexMatch locationRegex text of
                   Some locationMatch \<Rightarrow>
                     pi3\<lparr>location := jsOr (groups locationMatch 1) (groups locationMatch 2)\<rparr>
                 | None \<Rightarrow> pi3);
          pi5 = (case regexMatch dobRegex text of
                   Some dobMatch \<Rightarrow> pi4\<lparr>dateOfBirth := groups dobMatch 1\<rparr>
                 | None \<Rightarrow> pi4)
      in pi5)"

definition educationEntries :: "string \<Rightarrow> jsAbort + educationEntry list" where
  "educationEntries text =
     (case regexMatch educationSectionRegex text of
        None \<Rightarrow> Inr []
      | Some educationSection \<Rightarrow>
          (case execAll universityRegex (matched educationSection) of
             Inl e \<Rightarrow> Inl e
           | Inr uniMatches \<Rightarrow> Inr (map (educationEntryOf (matched educationSection)) uniMatches)))"

definition experienceEntries :: "string \<Rightarrow> jsAbort + experienceEntry list" where
  "experienceEntries text =
     (case regexMatch experienceSectionRegex text of
        None \<Rightarrow> Inr []
      | Some experienceSection \<Rightarrow>
          (case execAll companyRegex (matched experienceSection) of
             Inl e \<Rightarrow> Inl e
           | Inr companyMatches \<Rightarrow>
               pushAll (experienceEntryOf (matched experienceSection)) [] companyMatches))"

definition skillsOf :: "string \<Rightarrow> string list option" where
  "skillsOf text =
     (case regexMatch skillsSectionRegex text of
        None \<Rightarrow> None
      | Some skillsSection \<Rightarrow> Some (setDedupe (skillsListOf (matched skillsSection))))"

definition languageEntries :: "string \<Rightarrow> languageEntry list" where
  "languageEntries text =
     (case regexMatch languageSectionRegex text of
        Some languageSection \<Rightarrow>
          concat (map (sectionLanguageEntries (matched languageSection)) commonLanguages)
      | None \<Rightarrow> concat (map (textLanguageEntries text) commonLanguages))"

definition certificationEntries :: "string \<Rightarrow> jsAbort + certificationEntry list" where
  "certificationEntries text =
     (case regexMatch certSectionRegex text of
        None \<Rightarrow> Inr []
      | Some certSection \<Rightarrow>
          (case execAll certRegex (matched certSection) of
             Inl e \<Rightarrow> Inl e
           | Inr certMatches \<Rightarrow>
               pushAll (certificationEntryOf (matched certSection)) [] certMatches))"

text \<open>The profile with the contributions of a text put in.\<close>

definition withContributions ::
  "userData \<Rightarrow> string \<Rightarrow> educationEntry list \<Rightarrow> experienceEntry list \<Rightarrow>
     certificationEntry list \<Rightarrow> userData" where
  "withContributions ud text es xs cs =
     \<lparr>personalInfo = personalInfoOf (personalInfo ud) text,
      education = education ud @ es,
      experience = experience ud @ xs,
      skills = (case skillsOf text of None \<Rightarrow> skills ud | Some l \<Rightarrow> l),
      languages = languages ud @ languageEntries text,
      certifications = certifications ud @ cs\<rparr>"

section \<open>Example texts and profiles\<close>

text \<open>A one-line resume and the education entry the extraction makes of it.\<close>

definition schoolText :: string where
  "schoolText = ''EDUCATION School 2020''"

definition schoolEntry :: educationEntry where
  "schoolEntry = \<lparr>institution = ''School 2020'', degree = None, dates = Some ''2020'', gpa = None\<rparr>"

section \<open>The CV JSON import (cvUtils.js)\<close>

text \<open>
  The imported file is arbitrary JSON, so the values are modelled dynamically. Numbers
  stay abstract (\<^typ>\<open>'n\<close>): the code only tests their truthiness and converts them to
  strings. An object is the list of its own properties in creation order, with distinct
  keys.
\<close>

datatype 'n jsval =
    JUndefined
  | JNull
  | JBool bool
  | JNum 'n
  | JStr string
  | JArr "'n jsval list"
  | JObj "(string \<times> 'n jsval) list"

text \<open>What the host language does with numbers.\<close>

record 'n numberOps =
  numToString :: "'n \<Rightarrow> string"
  numTruthy :: "'n \<Rightarrow> bool"

text \<open>\<open>v.key\<close> for the keys the importer reads (none of them is a property that strings,
  numbers, booleans or arrays inherit): reading a property of \<open>null\<close> or \<open>undefined\<close>
  throws.\<close>

definition getProp :: "'n jsval \<Rightarrow> string \<Rightarrow> jsAbort + 'n jsval" where
  "getProp v key =
     (case v of
        JUndefined \<Rightarrow> Inl TypeError
      | JNull \<Rightarrow> Inl TypeError
      | JObj members \<Rightarrow> Inr (case map_of members key of Some w \<Rightarrow> w | None \<Rightarrow> JUndefined)
      | _ \<Rightarrow> Inr JUndefined)"

definition jsTruthy :: "'n numberOps \<Rightarrow> 'n jsval \<Rightarrow> bool" where
  "jsTruthy ops v =
     (case v of
        JUndefined \<Rightarrow> False
      | JNull \<Rightarrow> False
      | JBool b \<Rightarrow> b
      | JNum n \<Rightarrow> numTruthy ops n
      | JStr s \<Rightarrow> s \<noteq> []
      | JArr xs \<Rightarrow> True
      | JObj members \<Rightarrow> True)"

text \<open>Pieces of a string that are converted one after the other: the first conversion
  that throws ends the evaluation.\<close>

fun allStrings :: "(jsAbort + string) list \<Rightarrow> jsAbort + string list" where
  "allStrings [] = Inr []"
| "allStrings (p # ps) =
     (case p of
        Inl e \<Rightarrow> Inl e
      | Inr s \<Rightarrow> (case allStrings ps of Inl e \<Rightarrow> Inl e | Inr ss \<Rightarrow> Inr (s # ss)))"

definition strConcat :: "(jsAbort + string) list \<Rightarrow> jsAbort + string" where
  "strConcat ps = (case allStrings ps of Inl e \<Rightarrow> Inl e | Inr ss \<Rightarrow> Inr (concat ss))"

text \<open>
  String conversion, as a template literal and \<open>join\<close> do it. An array joins its elements
  with commas, \<open>null\<close> and \<open>undefined\<close> elements as empty strings. An object of the parsed
  file has data properties only: it converts with the inherited \<open>toString\<close> to
  \<open>[object Object]\<close>, unless it has a property \<open>toString\<close> of its own, which is not
  callable and leaves the conversion without a primitive value, a \<open>TypeError\<close>.
\<close>

primrec jsToString :: "'n numberOps \<Rightarrow> 'n jsval \<Rightarrow> jsAbort + string" where
  "jsToString ops JUndefined = Inr ''undefined''"
| "jsToString ops JNull = Inr ''null''"
| "jsToString ops (JBool b) = Inr (if b then ''true'' else ''false'')"
| "jsToString ops (JNum n) = Inr (numToString ops n)"
| "jsToString ops (JStr s) = Inr s"
| "jsToString ops (JArr xs) =
     (case allStrings
             (map (\<lambda>x. if x = JUndefined \<or> x = JNull then Inr [] else jsToString ops x) xs) of
        Inl e \<Rightarrow> Inl e
      | Inr ss \<Rightarrow> Inr (joinWith '','' ss))"
| "jsToString ops (JObj members) =
     (if ''toString'' \<in> fst ` set members then Inl TypeError else Inr ''[object Object]'')"

definition formatDate :: "'n numberOps \<Rightarrow> 'n jsval \<Rightarrow> 'n jsval" where
  "formatDate ops dateStr = (if \<not> jsTruthy ops dateStr then JStr [] else dateStr)"

definition months :: "string list" where
  "months = [''January'', ''February'', ''March'', ''April'', ''May'', ''June'', ''July'',
     ''August'', ''September'', ''October'', ''November'', ''December'']"

definition slashDateRegex :: regexp where   \<comment> \<open>\<open>/\d{2}\/\d{2}\/\d{4}/\<close>\<close>
  "slashDateRegex =
     \<lparr>pattern = seqs [rxTimes 2 rxDigit, Lit ''/'', rxTimes 2 rxDigit, Lit ''/'', rxTimes 4 rxDigit],
      ignoreCase = False, multiline = False\<rparr>"

definition yearMonthRegex :: regexp where   \<comment> \<open>\<open>/\d{4}-\d{2}/\<close>\<close>
  "yearMonthRegex =
     \<lparr>pattern = seqs [rxTimes 4 rxDigit, Lit ''-'', rxTimes 2 rxDigit],
      ignoreCase = False, multiline = False\<rparr>"

text \<open>\<open>parseInt(s)\<close>: leading white space, a sign, then the longest run of digits (after
  \<open>0x\<close> of hexadecimal digits); \<open>None\<close> is \<open>NaN\<close>. Only the month index is made from it.\<close>

definition digitValue :: "char \<Rightarrow> nat" where
  "digitValue c =
     (if isDigit c then of_char c - 48
      else if isUpperAZ c then of_char c - 55
      else of_char c - 87)"

definition isHexDigit :: "char \<Rightarrow> bool" where
  "isHexDigit c = (isDigit c \<or> (CHR ''a'' \<le> c \<and> c \<le> CHR ''f'') \<or> (CHR ''A'' \<le> c \<and> c \<le> CHR ''F''))"

definition parseInt :: "string \<Rightarrow> int option" where
  "parseInt s =
     (let s1 = dropWhile isSpace s;
          neg = (s1 \<noteq> [] \<and> hd s1 = CHR ''-'');
          s2 = (if s1 \<noteq> [] \<and> (hd s1 = CHR ''-'' \<or> hd s1 = CHR ''+'') then tl s1 else s1);
          hex = (prefix ''0x'' s2 \<or> prefix ''0X'' s2);
          ds = (if hex then takeWhile isHexDigit (drop 2 s2) else takeWhile isDigit s2);
          n = foldl (\<lambda>a c. a * (if hex then 16 else 10) + digitValue c) 0 ds
      in if ds = [] then None else Some (if neg then - int n else int n))"

text \<open>\<open>months[parseInt(month) - 1]\<close>, converted to a string: outside the table the
  element is \<open>undefined\<close>.\<close>

definition monthName :: "string option \<Rightarrow> string" where
  "monthName month =
     (case (case month of None \<Rightarrow> parseInt ''undefined'' | Some m \<Rightarrow> parseInt m) of
        None \<Rightarrow> ''undefined''
      | Some k \<Rightarrow> if 1 \<le> k \<and> k \<le> 12 then months ! nat (k - 1) else ''undefined'')"

text \<open>The \<open>n\<close>-th element of a destructured \<open>split\<close>, \<open>undefined\<close> past the end.\<close>

definition nthOpt :: "'a list \<Rightarrow> nat \<Rightarrow> 'a option" where
  "nthOpt xs n = (if n < length xs then Some (xs ! n) else None)"

text \<open>\<open>formatDisplayDate\<close>: a truthy value that is not a string has no method \<open>match\<close>,
  and calling it throws.\<close>

definition formatDisplayDate :: "'n numberOps \<Rightarrow> 'n jsval \<Rightarrow> jsAbort + string" where
  "formatDisplayDate ops dateStr =
     (if \<not> jsTruthy ops dateStr then Inr []
      else
        (case dateStr of
           JStr s \<Rightarrow>
             if regexMatch slashDateRegex s \<noteq> None then
               (let parts = splitChars (\<lambda>c. c = CHR ''/'') s
                in Inr (monthName (nthOpt parts 1) @ '' '' @ strOfUndefinable (nthOpt parts 2)))
             else if regexMatch yearMonthRegex s \<noteq> None then
               (let parts = splitChars (\<lambda>c. c = CHR ''-'') s
                in Inr (monthName (nthOpt parts 1) @ '' '' @ strOfUndefinable (nthOpt parts 0)))
             else Inr s
         | _ \<Rightarrow> Inl TypeError))"

definition generateLocation :: "'n numberOps \<Rightarrow> 'n jsval \<Rightarrow> jsAbort + string" where
  "generateLocation ops cvData =
     (case getProp cvData ''address1'' of
        Inl e \<Rightarrow> Inl e
      | Inr _ \<Rightarrow>
          (case allStrings
                  (map (jsToString ops)
                     (filter (jsTruthy ops)
                        (map (\<lambda>k. case getProp cvData k of Inr v \<Rightarrow> v | Inl _ \<Rightarrow> JUndefined)
                           [''address1'', ''address2'', ''city'', ''county'', ''postcode'',
                            ''residence'']))) of
             Inl e \<Rightarrow> Inl e
           | Inr components \<Rightarrow> Inr (joinWith '', '' components)))"

text \<open>Property reads of \<open>cvData\<close> after the first one cannot throw: once \<open>cvData.first_name\<close>
  has been read, \<open>cvData\<close> is neither \<open>null\<close> nor \<open>undefined\<close>.\<close>

definition propOf :: "'n jsval \<Rightarrow> string \<Rightarrow> 'n jsval" where
  "propOf v key = (case getProp v key of Inr w \<Rightarrow> w | Inl _ \<Rightarrow> JUndefined)"

definition credentialsOf :: "'n numberOps \<Rightarrow> 'n jsval \<Rightarrow> 'n jsval" where
  "credentialsOf ops cvData =
     JObj [(''username'', propOf cvData ''email''),
           (''password'', if jsTruthy ops (propOf cvData ''password'') then propOf cvData ''password''
                          else JStr ''placeholder'')]"

text \<open>The keys of the \<open>i\<close>-th employer: \<open>employer_name\<close>, \<open>employer_name2\<close>, ...\<close>

definition numbered :: "string \<Rightarrow> nat \<Rightarrow> string" where
  "numbered key i = (if i = 1 then key else key @ [''0123456789'' ! i])"

definition experienceOf :: "'n numberOps \<Rightarrow> 'n jsval \<Rightarrow> nat \<Rightarrow> jsAbort + 'n jsval list" where
  "experienceOf ops cvData i =
     (let employer = propOf cvData (numbered ''employer_name'' i);
          role = propOf cvData (numbered ''role_title'' i)
      in if jsTruthy ops employer \<and> jsTruthy ops role then
           (case formatDisplayDate ops (propOf cvData (numbered ''start_date'' i)) of
              Inl e \<Rightarrow> Inl e
            | Inr startDate \<Rightarrow>
                (case formatDisplayDate ops (propOf cvData (numbered ''end_date'' i)) of
                   Inl e \<Rightarrow> Inl e
                 | Inr endDate \<Rightarrow>
                     (case strConcat
                             [Inr ''Worked as '', jsToString ops role, Inr '' at '',
                              jsToString ops employer, Inr '' in '',
                              jsToString ops (propOf cvData (numbered ''country_of_employer'' i))] of
                        Inl e \<Rightarrow> Inl e
                      | Inr descr \<Rightarrow>
                          Inr [JObj [(''company'', employer), (''title'', role),
                                     (''dates'', JStr (startDate @ '' to '' @ endDate)),
                                     (''description'', JStr descr)]])))
         else Inr [])"

fun experiencesOf :: "'n numberOps \<Rightarrow> 'n jsval \<Rightarrow> nat list \<Rightarrow> jsAbort + 'n jsval list" where
  "experiencesOf ops cvData [] = Inr []"
| "experiencesOf ops cvData (i # ks) =
     (case experienceOf ops cvData i of
        Inl e \<Rightarrow> Inl e
      | Inr es \<Rightarrow>
          (case experiencesOf ops cvData ks of Inl e \<Rightarrow> Inl e | Inr others \<Rightarrow> Inr (es @ others)))"

definition isArray :: "'n jsval \<Rightarrow> bool" where
  "isArray v = (case v of JArr xs \<Rightarrow> True | _ \<Rightarrow> False)"

text \<open>The template \<open>`${formatDate(a)} to ${formatDate(b)}`\<close>.\<close>

definition dateRange :: "'n numberOps \<Rightarrow> 'n jsval \<Rightarrow> 'n jsval \<Rightarrow> jsAbort + string" where
  "dateRange ops a b =
     strConcat [jsToString ops (formatDate ops a), Inr '' to '', jsToString ops (formatDate ops b)]"

definition educationOf :: "'n numberOps \<Rightarrow> 'n jsval \<Rightarrow> jsAbort + 'n jsval" where
  "educationOf ops cvData =
     (if jsTruthy ops (propOf cvData ''education'') \<and> isArray (propOf cvData ''education'') then
        Inr (propOf cvData ''education'')
      else if jsTruthy ops (propOf cvData ''university'') then
        (case strConcat [jsToString ops (propOf cvData ''degree''), Inr '' in '',
                         jsToString ops (propOf cvData ''discipline'')] of
           Inl e \<Rightarrow> Inl e
         | Inr degreeText \<Rightarrow>
             (case dateRange ops (propOf cvData ''undergrad_start_date'')
                     (propOf cvData ''undergrad_end_date'') of
                Inl e \<Rightarrow> Inl e
              | Inr undergradDates \<Rightarrow>
                  (let university = JObj [(''institution'', propOf cvData ''university''),
                                          (''degree'', JStr degreeText),
                                          (''dates'', JStr undergradDates),
                                          (''gpa'', propOf cvData ''degree_score'')]
                   in if jsTruthy ops (propOf cvData ''school_name'') then
                        (case dateRange ops (propOf cvData ''school_start_date'')
                                (propOf cvData ''school_end_date'') of
                           Inl e \<Rightarrow> Inl e
                         | Inr schoolDates \<Rightarrow>
                             Inr (JArr [university,
                                        JObj [(''institution'', propOf cvData ''school_name''),
                                              (''degree'', propOf cvData ''school_system''),
                                              (''dates'', JStr schoolDates),
                                              (''gpa'', propOf cvData ''school_grades'')]]))
                      else Inr (JArr [university]))))
      else Inr (JArr []))"

definition languagesOf :: "'n numberOps \<Rightarrow> 'n jsval \<Rightarrow> 'n jsval" where
  "languagesOf ops cvData =
     JArr ((if jsTruthy ops (propOf cvData ''native_language'') then
              [JObj [(''language'', propOf cvData ''native_language''), (''proficiency'', JStr ''Native'')]]
            else []) @
           (if jsTruthy ops (propOf cvData ''fluent_language'') then
              [JObj [(''language'', propOf cvData ''fluent_language''), (''proficiency'', JStr ''Fluent'')]]
            else []) @
           (if jsTruthy ops (propOf cvData ''professional_language'') \<and>
               propOf cvData ''professional_language'' \<noteq> JStr ''None'' then
              [JObj [(''language'', propOf cvData ''professional_language''),
                     (''proficiency'', JStr ''Professional'')]]
            else []))"

definition convertToUserData :: "'n numberOps \<Rightarrow> 'n jsval \<Rightarrow> jsAbort + 'n jsval" where
  "convertToUserData ops cvData =
     (case getProp cvData ''first_name'' of
        Inl e \<Rightarrow> Inl e
      | Inr firstName \<Rightarrow>
          (case strConcat [jsToString ops firstName, Inr '' '',
                           jsToString ops (propOf cvData ''last_name'')] of
             Inl e \<Rightarrow> Inl e
           | Inr fullNameText \<Rightarrow>
          (case generateLocation ops cvData of
             Inl e \<Rightarrow> Inl e
           | Inr loc \<Rightarrow>
          (case educationOf ops cvData of
             Inl e \<Rightarrow> Inl e
           | Inr educationList \<Rightarrow>
               (case experiencesOf ops cvData [1, 2, 3, 4, 5] of
                  Inl e \<Rightarrow> Inl e
                | Inr experiences \<Rightarrow>
                    Inr (JObj
                      [(''personalInfo'',
                          JObj [(''fullName'', JStr fullNameText),
                                (''email'', propOf cvData ''email''),
                                (''phone'', propOf cvData ''phone''),
                                (''location'', JStr loc),
                                (''dateOfBirth'', JNull)]),
                       (''education'', educationList),
                       (''experience'', JArr experiences),
                       (''skills'', if jsTruthy ops (propOf cvData ''skills'') then propOf cvData ''skills''
                                    else JArr []),
                       (''languages'', languagesOf ops cvData),
                       (''certifications'',
                          if jsTruthy ops (propOf cvData ''certifications'') then propOf cvData ''certifications''
                          else JArr []),
                       (''workAuthorizationStatus'', propOf cvData ''citizenship''),
                       (''socialMediaProfiles'',
                          JObj (if jsTruthy ops (propOf cvData ''linkedin'')
                                then [(''linkedin'', propOf cvData ''linkedin'')] else [])),
                       (''linkedinCredentials'', credentialsOf ops cvData),
                       (''indeedCredentials'', credentialsOf ops cvData),
                       (''glassdoorCredentials'', credentialsOf ops cvData)]))))))"

text \<open>
  The file system and \<open>JSON.parse\<close> are outside the repository: \<open>readCV\<close> is what
  reading and parsing the file gives (the parsed value, or the error thrown), and the
  three later steps (the backup copy, creating the directory, writing the result) each
  either pass or throw.
\<close>

record ('n, 'e) cvEnv =
  readCV :: "string \<Rightarrow> 'e + 'n jsval"
  backupUserData :: "'e option"
  ensureDataDir :: "'e option"
  writeUserData :: "'n jsval \<Rightarrow> 'e option"

datatype 'e importError = IOError 'e | Thrown jsAbort

record 'n importResult =
  importedUserData :: "'n jsval"
  importedMissingFields :: "string list"

definition importCVJson ::
  "'n numberOps \<Rightarrow> ('n, 'e) cvEnv \<Rightarrow> string \<Rightarrow> 'e importError + 'n importResult" where
  "importCVJson ops env jsonFilePath =
     (case readCV env jsonFilePath of
        Inl e \<Rightarrow> Inl (IOError e)
      | Inr cvData \<Rightarrow>
          (case convertToUserData ops cvData of
             Inl a \<Rightarrow> Inl (Thrown a)
           | Inr converted \<Rightarrow>
               (case backupUserData env of
                  Some e \<Rightarrow> Inl (IOError e)
                | None \<Rightarrow>
                    (case ensureDataDir env of
                       Some e \<Rightarrow> Inl (IOError e)
                     | None \<Rightarrow>
                         (case writeUserData env converted of
                            Some e \<Rightarrow> Inl (IOError e)
                          | None \<Rightarrow>
                              Inr \<lparr>importedUserData = converted, importedMissingFields = []\<rparr>)))))"

section \<open>The content script: field classification (index.js, createFormMappings)\<close>

text \<open>
  A form control as the content script reads and writes it. The two label fields are
  what the DOM walks of \<open>findLabelForInput\<close> find: the text of the nearest \<open>LABEL\<close>
  ancestor below \<open>BODY\<close>, and the tag and text of the previous sibling element.
\<close>

record domOption =
  optValue :: string
  optText :: string

record domInput =
  tagName :: string
  inputName :: string
  inputId :: string
  placeholder :: string
  inputType :: string
  ancestorLabel :: "string option"
  previousSibling :: "(string \<times> string) option"
  options :: "domOption list"
  inputValue :: string
  fieldType :: "string option"
  automationAnalyzed :: bool
  backgroundColor :: string
  borderColor :: string
  originalBg :: "string option"

text \<open>The exceptions the DOM throws at the content script: \<open>document.querySelector\<close>
  refuses a selector that does not parse, and a file input refuses a value.\<close>

datatype domException = SyntaxError | InvalidStateError

text \<open>
  \<open>document.querySelector\<close> belongs to the browser: for a selector it throws, or returns
  the first matching element or \<open>null\<close>. The lookup only reads the text of the label it
  finds, so a document is modelled by the function from the selector to the exception or
  to that text (\<open>None\<close> for \<open>null\<close>).
\<close>

type_synonym labelQuery = "string \<Rightarrow> domException + string option"

text \<open>The selector the source builds, \<open>label[for="${input.id}"]\<close>: the id goes in as it
  is, without escaping.\<close>

definition labelSelector :: "string \<Rightarrow> string" where
  "labelSelector ident = ''label[for='' @ [CHR 0x22] @ ident @ [CHR 0x22] @ '']''"

definition findLabelForInput :: "labelQuery \<Rightarrow> domInput \<Rightarrow> domException + string option" where
  "findLabelForInput querySelector input =
     (case (if inputId input \<noteq> [] then querySelector (labelSelector (inputId input))
            else Inr None) of
        Inl e \<Rightarrow> Inl e
      | Inr (Some t) \<Rightarrow> Inr (Some (toLowerCase t))
      | Inr None \<Rightarrow>
         (case ancestorLabel input of
            Some t \<Rightarrow> Inr (Some (toLowerCase t))
          | None \<Rightarrow>
             (case previousSibling input of
                Some (tag, t) \<Rightarrow>
                  if tag = ''LABEL'' \<or> tag = ''SPAN'' \<or> tag = ''DIV''
                  then Inr (Some (toLowerCase t)) else Inr None
              | None \<Rightarrow> Inr None)))"

text \<open>\<open>label && label.includes(k)\<close>: a null or empty label is falsy.\<close>

definition labelIncludes :: "string option \<Rightarrow> string \<Rightarrow> bool" where
  "labelIncludes label k = (case label of None \<Rightarrow> False | Some l \<Rightarrow> l \<noteq> [] \<and> includesStr l k)"

text \<open>The test the source writes out for each keyword:
  \<open>name.includes(k) || id.includes(k) || placeholder.includes(k) || (label && label.includes(k))\<close>
  over the lower-cased name, id and placeholder and the label the lookup returned.\<close>

definition attrIncludes :: "domInput \<Rightarrow> string option \<Rightarrow> string \<Rightarrow> bool" where
  "attrIncludes input label k =
     (includesStr (toLowerCase (inputName input)) k \<or> includesStr (toLowerCase (inputId input)) k \<or>
      includesStr (toLowerCase (placeholder input)) k \<or> labelIncludes label k)"

text \<open>The branch chain that sets \<open>dataset.fieldType\<close>, for a control and its label; a
  control no branch matches keeps the field type it had.\<close>

definition assignFieldType :: "domInput \<Rightarrow> string option \<Rightarrow> domInput" where
  "assignFieldType input label =
     (if attrIncludes input label ''name'' then
        (if attrIncludes input label ''first'' then input\<lparr>fieldType := Some ''firstName''\<rparr>
         else if attrIncludes input label ''last'' then input\<lparr>fieldType := Some ''lastName''\<rparr>
         else input\<lparr>fieldType := Some ''fullName''\<rparr>)
      else if attrIncludes input label ''email'' \<or> inputType input = ''email'' then
        input\<lparr>fieldType := Some ''email''\<rparr>
      else if attrIncludes input label ''phone'' \<or> inputType input = ''tel'' then
        input\<lparr>fieldType := Some ''phone''\<rparr>
      else if attrIncludes input label ''address'' then input\<lparr>fieldType := Some ''address''\<rparr>
      else if attrIncludes input label ''city'' then input\<lparr>fieldType := Some ''city''\<rparr>
      else if attrIncludes input label ''state'' then input\<lparr>fieldType := Some ''state''\<rparr>
      else if attrIncludes input label ''zip'' \<or> attrIncludes input label ''postal'' then
        input\<lparr>fieldType := Some ''zip''\<rparr>
      else if attrIncludes input label ''education'' then input\<lparr>fieldType := Some ''education''\<rparr>
      else if attrIncludes input label ''experience'' then input\<lparr>fieldType := Some ''experience''\<rparr>
      else if attrIncludes input label ''skill'' then input\<lparr>fieldType := Some ''skills''\<rparr>
      else input)"

text \<open>The body of the \<open>forEach\<close> of \<open>createFormMappings\<close>: the control after the round,
  and the exception when the round threw. The original background is stored before the
  label is looked up, so a round that throws leaves it stored.\<close>

definition classifyInput :: "labelQuery \<Rightarrow> domInput \<Rightarrow> domInput \<times> domException option" where
  "classifyInput querySelector input0 =
     (let input = input0\<lparr>originalBg := Some (backgroundColor input0)\<rparr> in
      case findLabelForInput querySelector input of
        Inl e \<Rightarrow> (input, Some e)
      | Inr label \<Rightarrow> (assignFieldType input label, None))"

text \<open>
  \<open>createFormMappings\<close> over the controls of the page in document order: the page after
  the call, and the exception when the call threw. There is no \<open>try\<close> around the loop
  body, so the first round that throws ends the loop and the controls after it are not
  visited. (A call that returns returns the object \<open>fieldMappings\<close>, which nothing ever
  writes to; the caller \<open>analyzePage\<close> drops it, and turns an exception into the result
  \<open>{ success: false, error }\<close>.)
\<close>

fun createFormMappings ::
  "labelQuery \<Rightarrow> domInput list \<Rightarrow> domInput list \<times> domException option" where
  "createFormMappings querySelector [] = ([], None)"
| "createFormMappings querySelector (input # inputs) =
     (case classifyInput querySelector input of
        (input', Some e) \<Rightarrow> (input' # inputs, Some e)
      | (input', None) \<Rightarrow>
          (case createFormMappings querySelector inputs of
             (inputs', r) \<Rightarrow> (input' # inputs', r)))"

text \<open>A control of the page with nothing set, for concrete examples.\<close>

definition blankInput :: domInput where
  "blankInput = \<lparr>tagName = ''INPUT'', inputName = [], inputId = [], placeholder = [],
     inputType = ''text'', ancestorLabel = None, previousSibling = None,
     options = [], inputValue = [], fieldType = None, automationAnalyzed = False,
     backgroundColor = [], borderColor = [], originalBg = None\<rparr>"


section \<open>The content script: autofill (index.js, autoFillApplication)\<close>

text \<open>\<open>highlightField(field, success)\<close>: the original background is saved when none is
  saved yet, and the colours are set. (The colours are put back three seconds later by a
  timer, which is outside the model.)\<close>

definition highlightField :: "domInput \<Rightarrow> bool \<Rightarrow> domInput" where
  "highlightField field success =
     (let field1 = (if \<not> truthy (originalBg field)
                    then field\<lparr>originalBg := Some (backgroundColor field)\<rparr> else field)
      in field1\<lparr>backgroundColor := (if success then ''#d4edda'' else ''#fff3cd''),
                borderColor := (if success then ''#c3e6cb'' else ''#ffeeba'')\<rparr>)"

text \<open>The \<open>switch\<close> over the field type: the value for a control, \<open>None\<close> for \<open>null\<close>
  or \<open>undefined\<close>.\<close>

definition fieldValue :: "userData \<Rightarrow> domInput \<Rightarrow> string \<Rightarrow> string option" where
  "fieldValue ud input ft =
     (if ft = ''firstName'' then
        (if truthy (fullName (personalInfo ud)) then
           (case splitChars (\<lambda>c. c = CHR '' '') (strOfNullable (fullName (personalInfo ud))) of
              [] \<Rightarrow> None
            | part # _ \<Rightarrow> Some part)
         else None)
      else if ft = ''lastName'' then
        (if truthy (fullName (personalInfo ud)) then
           (let nameParts = splitChars (\<lambda>c. c = CHR '' '') (strOfNullable (fullName (personalInfo ud)))
            in if nameParts = [] then None else Some (last nameParts))
         else None)
      else if ft = ''fullName'' then fullName (personalInfo ud)
      else if ft = ''email'' then email (personalInfo ud)
      else if ft = ''phone'' then phone (personalInfo ud)
      else if ft = ''address'' then
        (if truthy (location (personalInfo ud)) then location (personalInfo ud) else None)
      else if ft = ''education'' then
        (case education ud of
           [] \<Rightarrow> None
         | mostRecent # _ \<Rightarrow>
             if tagName input = ''TEXTAREA'' then
               Some (joinWith [CHR 0x0A]
                       (map (\<lambda>edu. institution edu @ '', '' @ strOfNullable (degree edu) @ '', '' @
                                    strOfNullable (dates edu)) (education ud)))
             else Some (institution mostRecent @ '' - '' @ strOfNullable (degree mostRecent)))
      else if ft = ''experience'' then
        (case experience ud of
           [] \<Rightarrow> None
         | mostRecent # _ \<Rightarrow>
             if tagName input = ''TEXTAREA'' then
               Some (joinWith [CHR 0x0A, CHR 0x0A]
                       (map (\<lambda>e. company e @ '', '' @ strOfNullable (title e) @ '', '' @
                                  strOfNullable (expDates e) @ [CHR 0x0A] @ description e)
                          (experience ud)))
             else Some (company mostRecent @ '' - '' @ strOfNullable (title mostRecent)))
      else if ft = ''skills'' then
        (if length (skills ud) > 0 then Some (joinWith '', '' (skills ud)) else None)
      else None)"

text \<open>\<open>options.find(opt => opt.text.toLowerCase().includes(value.toLowerCase()))\<close>.\<close>

definition findOption :: "domOption list \<Rightarrow> string \<Rightarrow> domOption option" where
  "findOption opts v =
     find (\<lambda>opt. includesStr (toLowerCase (optText opt)) (toLowerCase v)) opts"

text \<open>Assigning \<open>input.value\<close> stores the string; a file input rejects every string but
  the empty one with an exception.\<close>


definition setInputValue :: "domInput \<Rightarrow> string \<Rightarrow> domException + domInput" where
  "setInputValue input v =
     (if tagName input = ''INPUT'' \<and> inputType input = ''file'' \<and> v \<noteq> [] then Inl InvalidStateError
      else Inr (input\<lparr>inputValue := v\<rparr>))"

text \<open>The body of the \<open>forEach\<close>: the control after the round, and whether the round
  counted it in \<open>filledFields\<close>.\<close>

definition fillInput :: "userData \<Rightarrow> domInput \<Rightarrow> domException + domInput \<times> bool" where
  "fillInput ud input =
     (case fieldType input of
        None \<Rightarrow> Inr (input, False)
      | Some ft \<Rightarrow>
          if ft = [] then Inr (input, False)
          else
            (case fieldValue ud input ft of
               None \<Rightarrow> Inr (input, False)
             | Some v \<Rightarrow>
                 if v = [] then Inr (input, False)
                 else if tagName input = ''SELECT'' then
                   (case findOption (options input) v of
                      Some opt \<Rightarrow>
                        (case setInputValue input (optValue opt) of
                           Inl e \<Rightarrow> Inl e
                         | Inr input' \<Rightarrow> Inr (highlightField input' True, True))
                    | None \<Rightarrow> Inr (input, False))
                 else
                   (case setInputValue input v of
                      Inl e \<Rightarrow> Inl e
                    | Inr input' \<Rightarrow> Inr (highlightField input' True, True))))"

text \<open>The first loop, over the controls marked \<open>data-automation-analyzed="true"\<close>, in
  document order: the page after the loop and the count, or, when a round throws, the
  page as the rounds before it left it.\<close>

fun fillAll :: "userData \<Rightarrow> domInput list \<Rightarrow> domInput list \<times> (domException + nat)" where
  "fillAll ud [] = ([], Inr 0)"
| "fillAll ud (input # inputs) =
     (if automationAnalyzed input then
        (case fillInput ud input of
           Inl e \<Rightarrow> (input # inputs, Inl e)
         | Inr (input', counted) \<Rightarrow>
             (case fillAll ud inputs of
                (inputs', Inl e) \<Rightarrow> (input' # inputs', Inl e)
              | (inputs', Inr n) \<Rightarrow> (input' # inputs', Inr (if counted then Suc n else n))))
      else
        (case fillAll ud inputs of (inputs', r) \<Rightarrow> (input # inputs', r)))"

text \<open>The second loop: file inputs whose name or id mentions a resume are highlighted
  for the user.\<close>

definition markFileInput :: "domInput \<Rightarrow> domInput" where
  "markFileInput input =
     (if tagName input = ''INPUT'' \<and> inputType input = ''file'' \<and>
         (let name = toLowerCase (inputName input); ident = toLowerCase (inputId input)
          in includesStr name ''resume'' \<or> includesStr ident ''resume'' \<or>
             includesStr name ''cv'' \<or> includesStr ident ''cv'' \<or>
             includesStr name ''document'' \<or> includesStr ident ''document'')
      then highlightField input False else input)"

text \<open>What \<open>autoFillApplication\<close> returns: \<open>{ success: true, filledFields: n }\<close>, or
  \<open>{ success: false, error: message }\<close> from the \<open>catch\<close>.\<close>

record autoFillResult =
  success :: bool
  filledFields :: "nat option"
  error :: "domException option"

text \<open>The page is the list of its controls in document order.\<close>

definition autoFillApplication :: "userData \<Rightarrow> domInput list \<Rightarrow> domInput list \<times> autoFillResult" where
  "autoFillApplication ud inputs =
     (case fillAll ud inputs of
        (inputs', Inl e) \<Rightarrow> (inputs', \<lparr>success = False, filledFields = None, error = Some e\<rparr>)
      | (inputs', Inr n) \<Rightarrow>
          (map markFileInput inputs', \<lparr>success = True, filledFields = Some n, error = None\<rparr>))"

text \<open>
  The report the specification describes for the autofill (section 4.6): next to the count
  of filled fields, the list of the skipped descriptors, each with its reason. This
  definition follows the specification's words; it is what the result of
  \<open>autoFillApplication\<close> is compared with.
\<close>

datatype skipReason = NoValue | NoMatchingOption

definition skipReasonOf :: "userData \<Rightarrow> domInput \<Rightarrow> skipReason option" where
  "skipReasonOf ud input =
     (case fieldType input of
        None \<Rightarrow> None
      | Some ft \<Rightarrow>
          if ft = [] then None
          else
            (case fieldValue ud input ft of
               None \<Rightarrow> Some NoValue
             | Some v \<Rightarrow>
                 if v = [] then Some NoValue
                 else if tagName input = ''SELECT'' \<and> findOption (options input) v = None
                 then Some NoMatchingOption
                 else None))"

definition skippedBySpec :: "userData \<Rightarrow> domInput list \<Rightarrow> (domInput \<times> skipReason) list" where
  "skippedBySpec ud inputs =
     concat (map (\<lambda>input. case skipReasonOf ud input of None \<Rightarrow> [] | Some r \<Rightarrow> [(input, r)])
               (filter automationAnalyzed inputs))"

text \<open>The example of the specification: the skills \<open>Go\<close> and \<open>Rust\<close> against a select
  with the options \<open>Golang\<close> and \<open>Python\<close>.\<close>

definition goRustProfile :: userData where
  "goRustProfile =
     \<lparr>personalInfo = \<lparr>fullName = Some ''Jane Q Public'', email = None, phone = None,
                       location = None, dateOfBirth = None\<rparr>,
      education = [], experience = [], skills = [''Go'', ''Rust''], languages = [],
      certifications = []\<rparr>"

definition skillsSelect :: domInput where
  "skillsSelect =
     blankInput\<lparr>tagName := ''SELECT'', inputName := ''skills'', inputType := ''select-one'',
       options := [\<lparr>optValue = ''1'', optText = ''Golang''\<rparr>, \<lparr>optValue = ''2'', optText = ''Python''\<rparr>],
       fieldType := Some ''skills'', automationAnalyzed := True\<rparr>"




section \<open>Authentication (jobApplicationBot.js)\<close>

text \<open>
  The browser is driven through Playwright, which is outside the repository. The model
  takes it as a deterministic driver over an abstract page state \<^typ>\<open>'w\<close>: the queries
  \<open>page.$(selector)\<close> (is there such an element?), \<open>element.isVisible()\<close>, \<open>page.url()\<close>
  and \<open>context.cookies()\<close>, which read the state, and the calls that act on the page, each
  of which gives the next state or throws (\<open>None\<close>). An element handle is named by the
  selector that found it. The bot keeps a trace of the calls it made, so that "no form
  element was filled" is a statement about the trace.
\<close>

datatype action =
    Goto string
  | Fill string string            \<comment> \<open>selector, text\<close>
  | Click string
  | WaitForLoadState
  | WaitForSelector string
  | SaveSessions                  \<comment> \<open>\<open>saveSessions()\<close>, which catches its own errors\<close>

record cookie =
  cookieName :: string
  cookieValue :: string

record credential =
  username :: string
  password :: string

record session =
  sessionUsername :: string
  sessionCookie :: "cookie option"

record 'w driver =
  selects :: "'w \<Rightarrow> string \<Rightarrow> bool"
  isVisible :: "'w \<Rightarrow> string \<Rightarrow> bool"
  currentUrl :: "'w \<Rightarrow> string"
  cookiesOf :: "'w \<Rightarrow> cookie list"
  perform :: "action \<Rightarrow> 'w \<Rightarrow> 'w option"
  hostname :: "string \<Rightarrow> string option"     \<comment> \<open>\<open>new URL(url).hostname\<close>; \<open>None\<close>: invalid URL\<close>

text \<open>The credentials in \<open>this.userData\<close>; \<open>None\<close> for a property that is not there.\<close>

record botUserData =
  linkedinCredentials :: "credential option"
  indeedCredentials :: "credential option"
  glassdoorCredentials :: "credential option"
  genericCredentials :: "(string \<Rightarrow> credential option) option"

record 'w bot =
  botUserData :: botUserData
  loggedInSites :: "(string \<times> session) list"     \<comment> \<open>the \<open>Map\<close>, in insertion order\<close>
  world :: 'w
  trace :: "action list"

text \<open>\<open>map.has(k)\<close> and \<open>map.set(k, v)\<close>.\<close>

definition mapHas :: "('k \<times> 'v) list \<Rightarrow> 'k \<Rightarrow> bool" where
  "mapHas m k = (map_of m k \<noteq> None)"

fun mapSet :: "('k \<times> 'v) list \<Rightarrow> 'k \<Rightarrow> 'v \<Rightarrow> ('k \<times> 'v) list" where
  "mapSet [] k v = [(k, v)]"
| "mapSet ((k', v') # m) k v = (if k' = k then (k, v) # m else (k', v') # mapSet m k v)"

text \<open>One call on the page: it is recorded, and either moves the page on or throws.\<close>

definition call :: "'w driver \<Rightarrow> action \<Rightarrow> 'w bot \<Rightarrow> 'w bot \<times> bool" where
  "call drv a b =
     (case perform drv a (world b) of
        None \<Rightarrow> (b\<lparr>trace := trace b @ [a]\<rparr>, False)
      | Some w \<Rightarrow> (b\<lparr>world := w, trace := trace b @ [a]\<rparr>, True))"

text \<open>Calls in sequence inside a \<open>try\<close>: the first that throws ends the sequence.\<close>

fun calls :: "'w driver \<Rightarrow> action list \<Rightarrow> 'w bot \<Rightarrow> 'w bot \<times> bool" where
  "calls drv [] b = (b, True)"
| "calls drv (a # as) b =
     (case call drv a b of (b', ok) \<Rightarrow> if ok then calls drv as b' else (b', False))"

definition loginSelectors :: "string list" where
  "loginSelectors =
     [''button:has-text(Sign In)'', ''a:has-text(Sign In)'', ''button:has-text(Log In)'',
      ''a:has-text(Log In)'', ''form[action*=login]'', ''form[action*=signin]'',
      ''input[name=username]'', ''input[name=email]:visible'', ''input[name=password]:visible'']"

definition checkLoginRequirement :: "'w driver \<Rightarrow> 'w \<Rightarrow> bool" where
  "checkLoginRequirement drv w = (\<exists>selector \<in> set loginSelectors. selects drv w selector)"

definition loginIndicators :: "string list" where
  "loginIndicators =
     [''button:has-text(Sign In)'', ''a:has-text(Sign In)'', ''button:has-text(Log In)'',
      ''a:has-text(Log In)'']"

definition loggedInIndicators :: "string list" where
  "loggedInIndicators =
     [''[aria-label=Profile]'', ''[aria-label=Account]'', ''.user-profile'', ''.user-avatar'',
      ''.profile-menu'']"

text \<open>\<open>element && await element.isVisible()\<close>.\<close>

definition visibleElement :: "'w driver \<Rightarrow> 'w \<Rightarrow> string \<Rightarrow> bool" where
  "visibleElement drv w selector = (selects drv w selector \<and> isVisible drv w selector)"

definition checkIfStillLoggedIn :: "'w driver \<Rightarrow> 'w \<Rightarrow> bool" where
  "checkIfStillLoggedIn drv w =
     (if \<exists>selector \<in> set loginIndicators. visibleElement drv w selector then False
      else if \<exists>selector \<in> set loggedInIndicators. visibleElement drv w selector then True
      else False)"

text \<open>
  The three known-site logins follow one scheme: go to the login page unless already
  there, make the site's calls with the site's credentials (reading them off a missing
  credentials object throws, before the first fill), look for the site's logged-in
  marker, and on success store the session with the site's cookie. Whatever throws inside
  is caught and the login returns \<open>false\<close>.
\<close>

definition knownSiteLogin ::
  "'w driver \<Rightarrow> string \<Rightarrow> string \<Rightarrow> credential option \<Rightarrow> (credential \<Rightarrow> action list) \<Rightarrow>
   string \<Rightarrow> string \<Rightarrow> string \<Rightarrow> 'w bot \<Rightarrow> 'w bot \<times> bool" where
  "knownSiteLogin drv urlPart loginUrl creds steps marker domain sessionCookieName b =
     (case (if \<not> includesStr (currentUrl drv (world b)) urlPart then call drv (Goto loginUrl) b
            else (b, True)) of
        (b1, ok1) \<Rightarrow>
          if \<not> ok1 then (b1, False)
          else
            (case creds of
               None \<Rightarrow> (b1, False)
             | Some cr \<Rightarrow>
                 (case calls drv (steps cr) b1 of
                    (b2, ok2) \<Rightarrow>
                      if \<not> ok2 then (b2, False)
                      else if selects drv (world b2) marker then
                        (b2\<lparr>loggedInSites :=
                               mapSet (loggedInSites b2) domain
                                 \<lparr>sessionUsername = username cr,
                                  sessionCookie = find (\<lambda>c. cookieName c = sessionCookieName)
                                                    (cookiesOf drv (world b2))\<rparr>,
                             trace := trace b2 @ [SaveSessions]\<rparr>, True)
                      else (b2, False))))"

definition handleLinkedInLogin :: "'w driver \<Rightarrow> 'w bot \<Rightarrow> 'w bot \<times> bool" where
  "handleLinkedInLogin drv b =
     knownSiteLogin drv ''linkedin.com/login'' ''https://www.linkedin.com/login''
       (linkedinCredentials (botUserData b))
       (\<lambda>cr. [Fill ''input#username'' (username cr), Fill ''input#password'' (password cr),
               Click ''button[type=submit]'', WaitForLoadState])
       ''.global-nav__me-photo'' ''linkedin.com'' ''li_at'' b"

definition handleIndeedLogin :: "'w driver \<Rightarrow> 'w bot \<Rightarrow> 'w bot \<times> bool" where
  "handleIndeedLogin drv b =
     knownSiteLogin drv ''indeed.com/account/login'' ''https://www.indeed.com/account/login''
       (indeedCredentials (botUserData b))
       (\<lambda>cr. [Fill ''input[name=email]'' (username cr), Click ''button[type=submit]'',
               WaitForSelector ''input[name=password]'', Fill ''input[name=password]'' (password cr),
               Click ''button[type=submit]'', WaitForLoadState])
       ''.gnav-menu'' ''indeed.com'' ''JSESSIONID'' b"

definition handleGlassdoorLogin :: "'w driver \<Rightarrow> 'w bot \<Rightarrow> 'w bot \<times> bool" where
  "handleGlassdoorLogin drv b =
     knownSiteLogin drv ''glassdoor.com/profile/login''
       ''https://www.glassdoor.com/profile/login_input.htm''
       (glassdoorCredentials (botUserData b))
       (\<lambda>cr. [Fill ''input[name=username]'' (username cr), Fill ''input[name=password]'' (password cr),
               Click ''button[type=submit]'', WaitForLoadState])
       ''[data-test=profilePhoto]'' ''glassdoor.com'' ''GSESSIONID'' b"

definition usernameSelectors :: "string list" where
  "usernameSelectors =
     [''input[type=email]'', ''input[name=email]'', ''input[id=email]'', ''input[name=username]'',
      ''input[id=username]'', ''input[name=user]'', ''input[id=user]'']"

definition passwordSelectors :: "string list" where
  "passwordSelectors =
     [''input[type=password]'', ''input[name=password]'', ''input[id=password]'',
      ''input[name=pwd]'', ''input[id=pwd]'']"

definition submitSelectors :: "string list" where
  "submitSelectors =
     [''button[type=submit]'', ''input[type=submit]'', ''button:has-text(Sign In)'',
      ''button:has-text(Log In)'', ''button:has-text(Login)'', ''a:has-text(Sign In)'',
      ''a:has-text(Log In)'']"

text \<open>The search loops: the first selector of the list with a visible element.\<close>

definition firstVisible :: "'w driver \<Rightarrow> 'w \<Rightarrow> string list \<Rightarrow> string option" where
  "firstVisible drv w selectors = find (visibleElement drv w) selectors"

definition genericCredentialFor :: "botUserData \<Rightarrow> string \<Rightarrow> credential option" where
  "genericCredentialFor ud domain =
     (case genericCredentials ud of None \<Rightarrow> None | Some table \<Rightarrow> table domain)"

definition handleGenericLogin :: "'w driver \<Rightarrow> 'w bot \<Rightarrow> string \<Rightarrow> 'w bot \<times> bool" where
  "handleGenericLogin drv b domain =
     (case (firstVisible drv (world b) usernameSelectors,
            firstVisible drv (world b) passwordSelectors,
            firstVisible drv (world b) submitSelectors) of
        (Some usernameField, Some passwordField, Some submitButton) \<Rightarrow>
          (case genericCredentialFor (botUserData b) domain of
             None \<Rightarrow> (b, False)
           | Some cr \<Rightarrow>
               (case calls drv [Fill usernameField (username cr), Fill passwordField (password cr),
                                Click submitButton, WaitForLoadState] b of
                  (b2, ok) \<Rightarrow>
                    if \<not> ok then (b2, False)
                    else if \<not> checkLoginRequirement drv (world b2) then
                      (b2\<lparr>loggedInSites :=
                             mapSet (loggedInSites b2) domain
                               \<lparr>sessionUsername = username cr,
                                sessionCookie = (case cookiesOf drv (world b2) of
                                                   [] \<Rightarrow> None | c # _ \<Rightarrow> Some c)\<rparr>,
                           trace := trace b2 @ [SaveSessions]\<rparr>, True)
                    else (b2, False)))
      | _ \<Rightarrow> (b, False))"

text \<open>\<open>handleAuthentication\<close> has no \<open>try\<close>: an invalid URL throws out of it.\<close>

definition handleAuthentication :: "'w driver \<Rightarrow> 'w bot \<Rightarrow> string \<Rightarrow> jsAbort + 'w bot \<times> bool" where
  "handleAuthentication drv b url =
     (case hostname drv url of
        None \<Rightarrow> Inl TypeError
      | Some domain \<Rightarrow>
          if mapHas (loggedInSites b) domain \<and> checkIfStillLoggedIn drv (world b) then Inr (b, True)
          else if includesStr domain ''linkedin'' then Inr (handleLinkedInLogin drv b)
          else if includesStr domain ''indeed'' then Inr (handleIndeedLogin drv b)
          else if includesStr domain ''glassdoor'' then Inr (handleGlassdoorLogin drv b)
          else Inr (handleGenericLogin drv b domain))"

section \<open>Case mapping of code units\<close>

lemma of_char_less_256: "(of_char c :: nat) < 256"
  by (cases c) (simp add: of_char_def horner_sum_eq_sum)

lemma char_eq_nat: "(a = b) = ((of_char a :: nat) = of_char b)"
  by simp

lemma of_char_toLowerChar:
  "(of_char (toLowerChar c) :: nat) =
     (if (65 \<le> (of_char c :: nat) \<and> (of_char c :: nat) \<le> 90) \<or>
         (192 \<le> (of_char c :: nat) \<and> (of_char c :: nat) \<le> 222 \<and> (of_char c :: nat) \<noteq> 215)
      then of_char c + 32 else of_char c)"
  by (cases c) (auto simp add: toLowerChar_def isUpperAZ_def)

lemma of_char_toUpperChar:
  "(of_char (toUpperChar c) :: nat) =
     (if (97 \<le> (of_char c :: nat) \<and> (of_char c :: nat) \<le> 122) \<or>
         (224 \<le> (of_char c :: nat) \<and> (of_char c :: nat) \<le> 254 \<and> (of_char c :: nat) \<noteq> 247)
      then of_char c - 32 else of_char c)"
  by (cases c) (auto simp add: toUpperChar_def isLowerAZ_def)

lemma toLower_toUpper: "toLowerChar (toUpperChar c) = toLowerChar c"
  unfolding char_eq_nat [of "toLowerChar (toUpperChar c)"] of_char_toLowerChar of_char_toUpperChar
  using of_char_less_256 [of c] by (simp split: if_splits; arith)

lemma toUpper_toLower: "toUpperChar (toLowerChar c) = toUpperChar c"
  unfolding char_eq_nat [of "toUpperChar (toLowerChar c)"] of_char_toLowerChar of_char_toUpperChar
  using of_char_less_256 [of c] by (simp split: if_splits; arith)

lemma toLower_idem: "toLowerChar (toLowerChar c) = toLowerChar c"
  unfolding char_eq_nat [of "toLowerChar (toLowerChar c)"] of_char_toLowerChar
  using of_char_less_256 [of c] by (simp split: if_splits)

lemma toUpper_idem: "toUpperChar (toUpperChar c) = toUpperChar c"
  unfolding char_eq_nat [of "toUpperChar (toUpperChar c)"] of_char_toUpperChar
  using of_char_less_256 [of c] by (simp split: if_splits; arith)

lemma canon_lower_iff: "(toUpperChar a = toUpperChar b) = (toLowerChar a = toLowerChar b)"
  by (metis toLower_toUpper toUpper_toLower)

lemma isSpace_code:
  "isSpace c = ((of_char c :: nat) \<in> {9, 10, 11, 12, 13, 32, 160})"
  unfolding isSpace_def char_eq_nat [of c] by simp

lemma isSpace_toUpper: "isSpace (toUpperChar c) = isSpace c"
  unfolding isSpace_code of_char_toUpperChar
  using of_char_less_256 [of c] by (simp split: if_splits; arith)

lemma isSpace_toLower: "isSpace (toLowerChar c) = isSpace c"
  unfolding isSpace_code of_char_toLowerChar
  using of_char_less_256 [of c] by (simp split: if_splits; arith)

lemma canonEq_isSpace: "canonEq ic a b \<Longrightarrow> isSpace b = isSpace a"
  by (metis canonEq_def isSpace_toUpper)

lemma clsMatch_not_space:
  "(\<And>c. P c \<Longrightarrow> \<not> isSpace c) \<Longrightarrow> clsMatch ic P c \<Longrightarrow> \<not> isSpace c"
  unfolding clsMatch_def using isSpace_toUpper [of c] isSpace_toLower [of c] by blast

section \<open>The matcher and the relation\<close>

lemma clearCaps_simps [simp]:
  "rest (clearCaps gs x) = rest x" "prev (clearCaps gs x) = prev x"
  "caps (clearCaps gs x) n = (if n \<in> set gs then None else caps x n)"
  by (simp_all add: clearCaps_def)

lemma litMatcher_sound:
  "litMatcher ic w c x = Some z \<Longrightarrow> \<exists>y \<in> sem (Lit w) ic ml x. c y = Some z"
proof (induction w arbitrary: x)
  case Nil
  then show ?case by (auto intro!: exI [of _ "[]"])
next
  case (Cons a as)
  from Cons.prems obtain b bs where
    x: "rest x = b # bs" and ab: "canonEq ic a b"
    and r: "litMatcher ic as c (MState (Some b) bs (caps x)) = Some z"
    by (auto split: list.splits if_splits)
  from Cons.IH [OF r] obtain y v where
    y: "c y = Some z" "bs = v @ rest y" "list_all2 (canonEq ic) as v" "caps y = caps x"
       "prev y = (if v = [] then Some b else Some (last v))"
    by auto
  show ?case
    using x ab y by (auto intro!: bexI [of _ y] exI [of _ "b # v"])
qed

lemma repeat_sound:
  "(\<And>c x z. m c x = Some z \<Longrightarrow> \<exists>y \<in> S x. c y = Some z) \<Longrightarrow>
   repeatMatcher m gs mn mx greedy c x = Some z \<longrightarrow>
     (\<exists>k y. minIter mn mx \<le> k \<and> y \<in> iterSem (\<lambda>u. S (clearCaps gs u)) k x \<and> c y = Some z)"
  "(\<And>c x z. m c x = Some z \<Longrightarrow> \<exists>y \<in> S x. c y = Some z) \<Longrightarrow>
   repeatCont m gs mn mx greedy c x y0 = Some z \<longrightarrow>
     (\<exists>k y. y \<in> iterSem (\<lambda>u. S (clearCaps gs u)) k y0 \<and> c y = Some z)"
proof (induction m gs mn mx greedy c x and m gs mn mx greedy c x y0
    rule: repeatMatcher_repeatCont.induct)
  case (1 m gs mn mx greedy c x)
  note m = "1.prems"
  have step: "\<exists>k y. minIter mn mx \<le> k \<and> y \<in> iterSem (\<lambda>u. S (clearCaps gs u)) k x \<and> c y = Some z"
    if run: "m (repeatCont m gs mn mx greedy c x) (clearCaps gs x) = Some z"
      and ih: "\<And>y0. repeatCont m gs mn mx greedy c x y0 = Some z \<longrightarrow>
                 (\<exists>k y. y \<in> iterSem (\<lambda>u. S (clearCaps gs u)) k y0 \<and> c y = Some z)"
  proof -
    from m [OF run] obtain u where
      u: "u \<in> S (clearCaps gs x)" "repeatCont m gs mn mx greedy c x u = Some z"
      by auto
    from ih u(2) obtain k y where
      "y \<in> iterSem (\<lambda>u. S (clearCaps gs u)) k u" "c y = Some z"
      by blast
    with u(1) have "y \<in> iterSem (\<lambda>u. S (clearCaps gs u)) (Suc k) x \<and> c y = Some z"
      by auto
    moreover have "minIter mn mx \<le> Suc k"
      by (simp add: minIter_def)
    ultimately show ?thesis by blast
  qed
  have zero: "\<exists>k y. minIter mn mx \<le> k \<and> y \<in> iterSem (\<lambda>u. S (clearCaps gs u)) k x \<and> c y = Some z"
    if "mx = Some 0 \<or> mn = 0" "c x = Some z"
    using that by (intro exI [of _ 0] exI [of _ x]) (auto simp add: minIter_def)
  show ?case
  proof
    assume r: "repeatMatcher m gs mn mx greedy c x = Some z"
    show "\<exists>k y. minIter mn mx \<le> k \<and> y \<in> iterSem (\<lambda>u. S (clearCaps gs u)) k x \<and> c y = Some z"
    proof (cases "mx = Some 0")
      case True
      with r zero show ?thesis by simp
    next
      case nz: False
      show ?thesis
      proof (cases "mn \<noteq> 0")
        case True
        with nz r have run: "m (repeatCont m gs mn mx greedy c x) (clearCaps gs x) = Some z"
          by simp
        show ?thesis
          by (rule step [OF run]) (rule "1.IH"(1) [OF nz True m])
      next
        case mn0: False
        show ?thesis
        proof (cases greedy)
          case False
          show ?thesis
          proof (cases "c x")
            case None
            with nz mn0 False r
            have run: "m (repeatCont m gs mn mx greedy c x) (clearCaps gs x) = Some z"
              by simp
            show ?thesis
              by (rule step [OF run]) (rule "1.IH"(2) [OF nz mn0 False None m])
          next
            case (Some z')
            with nz mn0 False r have "c x = Some z" by simp
            with zero mn0 show ?thesis by simp
          qed
        next
          case True
          show ?thesis
          proof (cases "m (repeatCont m gs mn mx greedy c x) (clearCaps gs x)")
            case None
            with nz mn0 True r have "c x = Some z" by simp
            with zero mn0 show ?thesis by simp
          next
            case (Some z')
            with nz mn0 True r
            have run: "m (repeatCont m gs mn mx greedy c x) (clearCaps gs x) = Some z"
              by simp
            have g: "\<not> \<not> greedy" using True by simp
            show ?thesis
              by (rule step [OF run]) (rule "1.IH"(3) [OF nz mn0 g m])
          qed
        qed
      qed
    qed
  qed
next
  case (2 m gs mn mx greedy c x y0)
  show ?case
  proof
    assume r: "repeatCont m gs mn mx greedy c x y0 = Some z"
    then have g: "\<not> (mn = 0 \<and> \<not> length (rest y0) < length (rest x))"
      and r': "repeatMatcher m gs (mn - 1) (map_option (\<lambda>k. k - 1) mx) greedy c y0 = Some z"
      by (auto split: if_splits)
    from "2.IH" [OF g "2.prems"] r'
    show "\<exists>k y. y \<in> iterSem (\<lambda>u. S (clearCaps gs u)) k y0 \<and> c y = Some z"
      by blast
  qed
qed

text \<open>Every result of the matcher is a result of its continuation in a state of the
  relation.\<close>

lemma compile_sound:
  "compile r ic ml c x = Some z \<Longrightarrow> \<exists>y \<in> sem r ic ml x. c y = Some z"
proof (induction r arbitrary: c x z)
  case (Cls P)
  then show ?case by (auto split: list.splits if_splits)
next
  case (NCls P)
  then show ?case by (auto split: list.splits if_splits)
next
  case (Lit w)
  then show ?case using litMatcher_sound [of ic w c x z ml] by simp
next
  case (Seq r1 r2)
  from Seq.prems have "compile r1 ic ml (compile r2 ic ml c) x = Some z" by simp
  from Seq.IH(1) [OF this] obtain u where
    u: "u \<in> sem r1 ic ml x" "compile r2 ic ml c u = Some z" by auto
  from Seq.IH(2) [OF u(2)] u(1) show ?case by auto
next
  case (Alt r1 r2)
  from Alt.prems have "compile r1 ic ml c x = Some z \<or> compile r2 ic ml c x = Some z"
    by (auto split: option.splits)
  with Alt.IH show ?case unfolding sem.simps by blast
next
  case (Rep mn mx greedy r)
  from Rep.prems
  have "repeatMatcher (compile r ic ml) (groupsOf r) mn mx greedy c x = Some z"
    by (simp del: repeatMatcher.simps)
  moreover have "repeatMatcher (compile r ic ml) (groupsOf r) mn mx greedy c x = Some z \<longrightarrow>
      (\<exists>k y. minIter mn mx \<le> k \<and>
         y \<in> iterSem (\<lambda>u. sem r ic ml (clearCaps (groupsOf r) u)) k x \<and> c y = Some z)"
    by (rule repeat_sound(1)) (erule Rep.IH)
  ultimately obtain k y where "minIter mn mx \<le> k"
    "y \<in> iterSem (\<lambda>u. sem r ic ml (clearCaps (groupsOf r) u)) k x" "c y = Some z"
    by blast
  then show ?case unfolding sem.simps by blast
next
  case (Grp n r)
  from Grp.prems have "compile r ic ml (groupCont n x c) x = Some z" by simp
  from Grp.IH [OF this] show ?case by (auto simp add: groupCont_def)
next
  case Bol
  then show ?case by (auto split: if_splits)
next
  case Eol
  then show ?case by (auto split: if_splits)
next
  case WordB
  then show ?case by (auto split: if_splits)
next
  case Eps
  then show ?case by simp
qed

section \<open>Properties of the relation\<close>

lemma iterSem_invariant:
  assumes "y \<in> iterSem f k x" and "P x" and "\<And>u v. v \<in> f u \<Longrightarrow> P u \<Longrightarrow> P v"
  shows "P y"
  using assms by (induction k arbitrary: x) auto

lemma iterSem_last:
  "y \<in> iterSem f (Suc k) x \<Longrightarrow> \<exists>u. y \<in> f u"
proof (induction k arbitrary: x)
  case 0
  then show ?case by auto
next
  case (Suc k)
  from Suc.prems obtain u where "u \<in> f x" "y \<in> iterSem f (Suc k) u" by auto
  with Suc.IH show ?case by blast
qed

lemma iterSem_consumes:
  assumes f: "\<And>u v. v \<in> f u \<Longrightarrow> \<exists>w. rest u = w @ rest v \<and> (Q \<longrightarrow> (\<exists>c \<in> set w. \<not> isSpace c))"
  shows "y \<in> iterSem f k x \<Longrightarrow>
         \<exists>w. rest x = w @ rest y \<and> (Q \<and> 1 \<le> k \<longrightarrow> (\<exists>c \<in> set w. \<not> isSpace c))"
proof (induction k arbitrary: x)
  case 0
  then show ?case by simp
next
  case (Suc k)
  from Suc.prems obtain u where u: "u \<in> f x" "y \<in> iterSem f k u" by auto
  from f [OF u(1)] obtain w1 where
    w1: "rest x = w1 @ rest u" "Q \<longrightarrow> (\<exists>c \<in> set w1. \<not> isSpace c)" by blast
  from Suc.IH [OF u(2)] obtain w2 where w2: "rest u = w2 @ rest y" by blast
  have "rest x = (w1 @ w2) @ rest y" using w1(1) w2 by simp
  moreover have "Q \<longrightarrow> (\<exists>c \<in> set (w1 @ w2). \<not> isSpace c)" using w1(2) by auto
  ultimately show ?case by blast
qed

lemma lit_solid:
  assumes "list_all2 (canonEq ic) w v" and "a \<in> set w" and "\<forall>c. canonEq ic a c \<longrightarrow> \<not> isSpace c"
  shows "\<exists>c \<in> set v. \<not> isSpace c"
proof -
  from assms(2) obtain i where i: "i < length w" "w ! i = a"
    by (auto simp add: in_set_conv_nth)
  with assms(1) have "canonEq ic a (v ! i)" "i < length v"
    by (auto simp add: list_all2_conv_all_nth)
  with assms(3) have "v ! i \<in> set v" "\<not> isSpace (v ! i)" by simp_all
  then show ?thesis by blast
qed

text \<open>A pattern consumes a piece of the input from its front, and a solid pattern a
  piece with a character that is not white space.\<close>

lemma sem_consumes:
  "y \<in> sem r ic ml x \<Longrightarrow>
   \<exists>w. rest x = w @ rest y \<and> (solid r ic \<longrightarrow> (\<exists>c \<in> set w. \<not> isSpace c))"
proof (induction r arbitrary: x y)
  case (Cls P)
  then show ?case by auto
next
  case (NCls P)
  then show ?case by auto
next
  case (Lit w)
  then show ?case using lit_solid [of ic w] by fastforce
next
  case (Seq r1 r2)
  from Seq.prems obtain u where u: "u \<in> sem r1 ic ml x" "y \<in> sem r2 ic ml u" by auto
  from Seq.IH(1) [OF u(1)] obtain w1 where
    w1: "rest x = w1 @ rest u" "solid r1 ic \<longrightarrow> (\<exists>c \<in> set w1. \<not> isSpace c)" by blast
  from Seq.IH(2) [OF u(2)] obtain w2 where
    w2: "rest u = w2 @ rest y" "solid r2 ic \<longrightarrow> (\<exists>c \<in> set w2. \<not> isSpace c)" by blast
  have "rest x = (w1 @ w2) @ rest y" using w1(1) w2(1) by simp
  moreover have "solid (Seq r1 r2) ic \<longrightarrow> (\<exists>c \<in> set (w1 @ w2). \<not> isSpace c)"
    using w1(2) w2(2) by auto
  ultimately show ?case by blast
next
  case (Alt r1 r2)
  then show ?case by fastforce
next
  case (Rep mn mx greedy r)
  from Rep.prems obtain k where
    k: "minIter mn mx \<le> k" "y \<in> iterSem (\<lambda>u. sem r ic ml (clearCaps (groupsOf r) u)) k x"
    by auto
  have "\<exists>w. rest x = w @ rest y \<and> (solid r ic \<and> 1 \<le> k \<longrightarrow> (\<exists>c \<in> set w. \<not> isSpace c))"
  proof (rule iterSem_consumes [OF _ k(2)])
    fix u v
    assume "v \<in> sem r ic ml (clearCaps (groupsOf r) u)"
    from Rep.IH [OF this]
    show "\<exists>w. rest u = w @ rest v \<and> (solid r ic \<longrightarrow> (\<exists>c \<in> set w. \<not> isSpace c))"
      by simp
  qed
  with k(1) show ?case by auto
next
  case (Grp n r)
  from Grp.prems obtain y' where y': "y' \<in> sem r ic ml x" "rest y = rest y'" by auto
  from Grp.IH [OF y'(1)] y'(2) show ?case by simp
next
  case Bol
  then show ?case by (auto split: if_splits)
next
  case Eol
  then show ?case by (auto split: if_splits)
next
  case WordB
  then show ?case by (auto split: if_splits)
next
  case Eps
  then show ?case by simp
qed

lemma sem_preserves:
  "y \<in> sem r ic ml x \<Longrightarrow> n \<notin> set (groupsOf r) \<Longrightarrow> caps y n = caps x n"
proof (induction r arbitrary: x y)
  case (Seq r1 r2)
  from Seq.prems obtain u where u: "u \<in> sem r1 ic ml x" "y \<in> sem r2 ic ml u" by auto
  from Seq.IH(1) [OF u(1)] Seq.IH(2) [OF u(2)] Seq.prems(2) show ?case by simp
next
  case (Alt r1 r2)
  then show ?case by fastforce
next
  case (Rep mn mx greedy r)
  from Rep.prems obtain k where
    k: "y \<in> iterSem (\<lambda>u. sem r ic ml (clearCaps (groupsOf r) u)) k x" by auto
  show ?case
  proof (rule iterSem_invariant [OF k, where P = "\<lambda>u. caps u n = caps x n"])
    show "caps x n = caps x n" by simp
  next
    fix u v
    assume "v \<in> sem r ic ml (clearCaps (groupsOf r) u)" "caps u n = caps x n"
    with Rep.IH [of v "clearCaps (groupsOf r) u"] Rep.prems(2)
    show "caps v n = caps x n" by simp
  qed
next
  case (Grp k r)
  from Grp.prems obtain y' where
    y': "y' \<in> sem r ic ml x" "caps y = (caps y')(k := Some (take (length (rest x) - length (rest y')) (rest x)))"
    by auto
  from Grp.IH [OF y'(1)] y'(2) Grp.prems(2) show ?case by simp
qed (auto split: if_splits)

text \<open>What a group holds after the pattern was either there before or is solid.\<close>

lemma sem_group:
  "y \<in> sem r ic ml x \<Longrightarrow> grpSolid r ic n \<Longrightarrow> caps y n = Some g \<Longrightarrow>
   (\<exists>c \<in> set g. \<not> isSpace c) \<or> caps x n = Some g"
proof (induction r arbitrary: x y)
  case (Seq r1 r2)
  from Seq.prems obtain u where u: "u \<in> sem r1 ic ml x" "y \<in> sem r2 ic ml u" by auto
  from Seq.IH(2) [OF u(2)] Seq.prems
  have "(\<exists>c \<in> set g. \<not> isSpace c) \<or> caps u n = Some g" by simp
  with Seq.IH(1) [OF u(1)] Seq.prems show ?case by auto
next
  case (Alt r1 r2)
  then show ?case by fastforce
next
  case (Rep mn mx greedy r)
  from Rep.prems obtain k where
    k: "y \<in> iterSem (\<lambda>u. sem r ic ml (clearCaps (groupsOf r) u)) k x" by auto
  have "caps y n = Some g \<longrightarrow> (\<exists>c \<in> set g. \<not> isSpace c) \<or> caps x n = Some g"
  proof (rule iterSem_invariant [OF k,
        where P = "\<lambda>u. caps u n = Some g \<longrightarrow> (\<exists>c \<in> set g. \<not> isSpace c) \<or> caps x n = Some g"])
    show "caps x n = Some g \<longrightarrow> (\<exists>c \<in> set g. \<not> isSpace c) \<or> caps x n = Some g" by simp
  next
    fix u v
    assume v: "v \<in> sem r ic ml (clearCaps (groupsOf r) u)"
      and u: "caps u n = Some g \<longrightarrow> (\<exists>c \<in> set g. \<not> isSpace c) \<or> caps x n = Some g"
    show "caps v n = Some g \<longrightarrow> (\<exists>c \<in> set g. \<not> isSpace c) \<or> caps x n = Some g"
    proof
      assume "caps v n = Some g"
      with Rep.IH [OF v] Rep.prems(2)
      have "(\<exists>c \<in> set g. \<not> isSpace c) \<or> caps (clearCaps (groupsOf r) u) n = Some g" by simp
      with u show "(\<exists>c \<in> set g. \<not> isSpace c) \<or> caps x n = Some g"
        by (auto split: if_splits)
    qed
  qed
  with Rep.prems(3) show ?case by simp
next
  case (Grp k r)
  from Grp.prems(1) obtain y' where
    y': "y' \<in> sem r ic ml x"
      "caps y = (caps y')(k := Some (take (length (rest x) - length (rest y')) (rest x)))"
    by auto
  show ?case
  proof (cases "k = n")
    case True
    from sem_consumes [OF y'(1)] obtain w where
      w: "rest x = w @ rest y'" "solid r ic \<longrightarrow> (\<exists>c \<in> set w. \<not> isSpace c)" by blast
    from w(1) have "take (length (rest x) - length (rest y')) (rest x) = w" by simp
    with y'(2) True Grp.prems(3) have "g = w" by simp
    with w(2) Grp.prems(2) True show ?thesis by simp
  next
    case False
    with y'(2) Grp.prems have "caps y' n = Some g" "grpSolid r ic n" by simp_all
    with Grp.IH [OF y'(1)] show ?thesis by simp
  qed
qed (auto split: if_splits)

text \<open>A pattern that sets a group leaves it set.\<close>

lemma sem_setsGroup:
  "y \<in> sem r ic ml x \<Longrightarrow> setsGroup r n \<Longrightarrow> caps y n \<noteq> None"
proof (induction r arbitrary: x y)
  case (Seq r1 r2)
  from Seq.prems obtain u where u: "u \<in> sem r1 ic ml x" "y \<in> sem r2 ic ml u" by auto
  show ?case
  proof (cases "setsGroup r2 n")
    case True
    with Seq.IH(2) [OF u(2)] show ?thesis by simp
  next
    case False
    with Seq.prems(2) have "setsGroup r1 n" "n \<notin> set (groupsOf r2)" by simp_all
    with Seq.IH(1) [OF u(1)] sem_preserves [OF u(2)] show ?thesis by simp
  qed
next
  case (Alt r1 r2)
  then show ?case by fastforce
next
  case (Rep mn mx greedy r)
  from Rep.prems obtain k where
    k: "minIter mn mx \<le> k" "y \<in> iterSem (\<lambda>u. sem r ic ml (clearCaps (groupsOf r) u)) k x"
    by auto
  from Rep.prems(2) k(1) obtain k' where "k = Suc k'" by (cases k) auto
  with k(2) iterSem_last obtain u where "y \<in> sem r ic ml (clearCaps (groupsOf r) u)"
    by blast
  with Rep.IH Rep.prems(2) show ?case by simp
next
  case (Grp k r)
  from Grp.prems(1) obtain y' where
    y': "y' \<in> sem r ic ml x"
      "caps y = (caps y')(k := Some (take (length (rest x) - length (rest y')) (rest x)))"
    by auto
  show ?case
  proof (cases "k = n")
    case True
    with y'(2) show ?thesis by simp
  next
    case False
    with Grp.prems(2) have "setsGroup r n" by simp
    with Grp.IH [OF y'(1)] y'(2) False show ?thesis by simp
  qed
qed (auto split: if_splits)

section \<open>Properties of the matches\<close>

lemma matchAt_sound:
  "matchAt re p s = Some y \<Longrightarrow>
   y \<in> sem (pattern re) (ignoreCase re) (multiline re) (MState p s (\<lambda>n. None))"
  using compile_sound [of "pattern re" "ignoreCase re" "multiline re" Some "MState p s (\<lambda>n. None)" y]
  by (simp add: matchAt_def)

lemma matchAt_rest:
  assumes "matchAt re p s = Some y"
  shows "s = take (length s - length (rest y)) s @ rest y"
proof -
  from sem_consumes [OF matchAt_sound [OF assms]] obtain w where "s = w @ rest y" by auto
  then have "take (length s - length (rest y)) s = w" by (metis append_eq_conv_conj length_append add_diff_cancel_right')
  with \<open>s = w @ rest y\<close> show ?thesis by simp
qed

text \<open>The search returns a match of the pattern at some position of the input; \<open>p'\<close> is
  the code unit before that position.\<close>

lemma scan_sound:
  "scan re p s i = Some m \<Longrightarrow>
   \<exists>pre post y. s = pre @ matched m @ post \<and> index m = i + length pre \<and>
     y \<in> sem (pattern re) (ignoreCase re) (multiline re)
           (MState (if pre = [] then p else Some (last pre)) (matched m @ post) (\<lambda>n. None)) \<and>
     rest y = post \<and> groups m = caps y"
proof (induction s arbitrary: p i)
  case Nil
  from Nil obtain y where y: "matchAt re p [] = Some y" "m = \<lparr>index = i, matched = [], groups = caps y\<rparr>"
    by (auto split: option.splits)
  from matchAt_rest [OF y(1)] have "rest y = []" by simp
  with matchAt_sound [OF y(1)] y(2) show ?case
    by - (rule exI [of _ "[]"], rule exI [of _ "[]"], rule exI [of _ y], simp)
next
  case (Cons b bs)
  show ?case
  proof (cases "matchAt re p (b # bs)")
    case (Some y)
    with Cons.prems have m: "index m = i" "groups m = caps y"
      "matched m = take (length (b # bs) - length (rest y)) (b # bs)"
      by auto
    from matchAt_rest [OF Some] m(3) have s: "b # bs = matched m @ rest y" by simp
    have "y \<in> sem (pattern re) (ignoreCase re) (multiline re)
            (MState p (matched m @ rest y) (\<lambda>n. None))"
      using matchAt_sound [OF Some] unfolding s .
    with s m(1,2) show ?thesis
      by - (rule exI [of _ "[]"], rule exI [of _ "rest y"], rule exI [of _ y], simp)
  next
    case None
    with Cons.prems have "scan re (Some b) bs (Suc i) = Some m" by simp
    from Cons.IH [OF this] obtain pre post y where
      r: "bs = pre @ matched m @ post" "index m = Suc i + length pre"
        "y \<in> sem (pattern re) (ignoreCase re) (multiline re)
           (MState (if pre = [] then Some b else Some (last pre)) (matched m @ post) (\<lambda>n. None))"
        "rest y = post" "groups m = caps y"
      by blast
    show ?thesis
      using r by - (rule exI [of _ "b # pre"], rule exI [of _ post], rule exI [of _ y],
          simp split: if_splits)
  qed
qed

lemma scan_matchOf:
  "scan re p s i = Some m \<Longrightarrow> matchOf (pattern re) (ignoreCase re) (multiline re) m"
  using scan_sound [of re p s i m] unfolding matchOf_def by blast

lemma regexMatch_matchOf:
  "regexMatch re s = Some m \<Longrightarrow> matchOf (pattern re) (ignoreCase re) (multiline re) m"
  unfolding regexMatch_def by (rule scan_matchOf)

lemma execLoop_matchOf:
  "execLoop re p s i = Inr ms \<Longrightarrow>
   \<forall>m \<in> set ms. matchOf (pattern re) (ignoreCase re) (multiline re) m"
proof (induction re p s i arbitrary: ms rule: execLoop.induct)
  case (1 re p s i)
  show ?case
  proof (cases "scan re p s i")
    case None
    with "1.prems" show ?thesis by (simp add: execLoop.simps [of re p s i])
  next
    case (Some m)
    with "1.prems" have ne: "matched m \<noteq> []"
      by (auto simp add: execLoop.simps [of re p s i] split: if_splits)
    with "1.prems" Some obtain ms' where
      ms': "execLoop re (Some (last (matched m)))
              (drop (index m - i + length (matched m)) s) (index m + length (matched m)) = Inr ms'"
        "ms = m # ms'"
      by (auto simp add: execLoop.simps [of re p s i] split: sum.splits)
    from "1.IH" [OF Some ne ms'(1)] scan_matchOf [OF Some] ms'(2) show ?thesis by simp
  qed
qed

lemma execAll_matchOf:
  "execAll re s = Inr ms \<Longrightarrow>
   \<forall>m \<in> set ms. matchOf (pattern re) (ignoreCase re) (multiline re) m"
  unfolding execAll_def by (rule execLoop_matchOf)

lemma matchOf_solid:
  assumes "matchOf r ic ml m" and "solid r ic"
  shows "\<exists>c \<in> set (matched m). \<not> isSpace c"
proof -
  from assms(1) obtain p s y where
    y: "y \<in> sem r ic ml (MState p (matched m @ s) (\<lambda>n. None))" "rest y = s"
    unfolding matchOf_def by blast
  from sem_consumes [OF y(1)] y(2) assms(2) show ?thesis by auto
qed

lemma matchOf_group:
  assumes "matchOf r ic ml m" and "grpSolid r ic n" and "groups m n = Some g"
  shows "\<exists>c \<in> set g. \<not> isSpace c"
proof -
  from assms(1) obtain p s y where
    y: "y \<in> sem r ic ml (MState p (matched m @ s) (\<lambda>n. None))" "groups m = caps y"
    unfolding matchOf_def by blast
  from sem_group [OF y(1) assms(2), of g] y(2) assms(3) show ?thesis by simp
qed

lemma matchOf_setsGroup:
  assumes "matchOf r ic ml m" and "setsGroup r n"
  shows "groups m n \<noteq> None"
proof -
  from assms(1) obtain p s y where
    y: "y \<in> sem r ic ml (MState p (matched m @ s) (\<lambda>n. None))" "groups m = caps y"
    unfolding matchOf_def by blast
  from sem_setsGroup [OF y(1) assms(2)] y(2) show ?thesis by simp
qed

lemma trim_solid: "\<exists>c \<in> set w. \<not> isSpace c \<Longrightarrow> trim w \<noteq> []"
proof -
  assume a: "\<exists>c \<in> set w. \<not> isSpace c"
  let ?d = "dropWhile isSpace w"
  from a have d: "?d \<noteq> []" by (simp add: dropWhile_eq_Nil_conv)
  then have "\<not> isSpace (hd ?d)" by (rule hd_dropWhile)
  with d have "\<exists>c \<in> set (rev ?d). \<not> isSpace c" by (cases ?d) auto
  then have "dropWhile isSpace (rev ?d) \<noteq> []" by (simp add: dropWhile_eq_Nil_conv)
  then show ?thesis by (simp add: trim_def)
qed

text \<open>How the three properties are read off the classes and literals of the source.\<close>

lemma canonEq_refl: "canonEq ic a a"
  by (simp add: canonEq_def)

lemma solid_Lit: "solid (Lit w) ic = (\<exists>a \<in> set w. \<not> isSpace a)"
proof -
  have "(\<forall>c. canonEq ic a c \<longrightarrow> \<not> isSpace c) = (\<not> isSpace a)" for a
    using canonEq_isSpace [of ic a] canonEq_refl [of ic a] by blast
  then show ?thesis by simp
qed

lemma solid_Cls: "(\<And>c. P c \<Longrightarrow> \<not> isSpace c) \<Longrightarrow> solid (Cls P) ic"
  using clsMatch_not_space [of P ic] by auto

lemma not_space_classes:
  "isDigit c \<Longrightarrow> \<not> isSpace c" "isUpperAZ c \<Longrightarrow> \<not> isSpace c" "isLowerAZ c \<Longrightarrow> \<not> isSpace c"
  unfolding isDigit_def isUpperAZ_def isLowerAZ_def less_eq_char_def isSpace_code
  by simp_all

section \<open>Properties of parseResume\<close>

text \<open>Decoders that return a fixed text for every path.\<close>

definition constDecoders :: "string \<Rightarrow> unit decoders" where
  "constDecoders text =
     \<lparr>pdfText = (\<lambda>path. Inr text), docxText = (\<lambda>path. Inr text), txtText = (\<lambda>path. Inr text)\<rparr>"

lemma parseText_not_unsupported: "parseText p text \<noteq> Inl UnsupportedFileFormat"
  by (simp add: parseText_def Let_def split: sum.splits)

lemma extname_examples:
  "toLowerCase (extname ''resume.doc'') = ''.doc''"
  "toLowerCase (extname ''docs/CV.PDF'') = ''.pdf''"
  by code_simp+

text \<open>
  Claim C9. \<open>parseResume\<close> dispatches on the lower-cased extension of the path. When it
  is none of \<open>.pdf\<close>, \<open>.docx\<close>, \<open>.txt\<close> the call throws the error
  \<open>Unsupported file format\<close>, whatever the decoders would do, and so returns no profile
  data. When it is one of the three, the call is the decoder of that format followed by the
  extraction, and its outcome is never the unsupported-format error.
\<close>

theorem parseResume_extension_dispatch:
  "(toLowerCase (extname filePath) \<notin> {''.pdf'', ''.docx'', ''.txt''} \<longrightarrow>
      parseResume env p filePath = Inl UnsupportedFileFormat) \<and>
   (toLowerCase (extname filePath) = ''.pdf'' \<longrightarrow>
      parseResume env p filePath =
        (case pdfText env filePath of Inl e \<Rightarrow> Inl (DecoderError e) | Inr text \<Rightarrow> parseText p text)) \<and>
   (toLowerCase (extname filePath) = ''.docx'' \<longrightarrow>
      parseResume env p filePath =
        (case docxText env filePath of Inl e \<Rightarrow> Inl (DecoderError e) | Inr text \<Rightarrow> parseText p text)) \<and>
   (toLowerCase (extname filePath) = ''.txt'' \<longrightarrow>
      parseResume env p filePath =
        (case txtText env filePath of Inl e \<Rightarrow> Inl (DecoderError e) | Inr text \<Rightarrow> parseText p text)) \<and>
   (toLowerCase (extname filePath) \<in> {''.pdf'', ''.docx'', ''.txt''} \<longrightarrow>
      parseResume env p filePath \<noteq> Inl UnsupportedFileFormat)"
  by (auto simp add: parseResume_def Let_def parseText_not_unsupported split: sum.splits)

theorem parseResume_extension_dispatch_witness:
  "parseResume (constDecoders ''Jane Doe'') newResumeParser ''resume.doc''
     = Inl UnsupportedFileFormat \<and>
   parseResume (constDecoders ''Jane Doe'') newResumeParser ''docs/CV.PDF''
     = parseText newResumeParser ''Jane Doe'' \<and>
   parseResume (constDecoders ''Jane Doe'') newResumeParser ''docs/CV.PDF''
     \<noteq> Inl UnsupportedFileFormat"
  using parseResume_extension_dispatch
      [of "''resume.doc''" "constDecoders ''Jane Doe''" newResumeParser]
    parseResume_extension_dispatch
      [of "''docs/CV.PDF''" "constDecoders ''Jane Doe''" newResumeParser]
    extname_examples
  by (simp add: constDecoders_def parseText_not_unsupported)

section \<open>The extractors as functions of the text\<close>

lemma extractPersonalInfo_eq:
  "extractPersonalInfo ud text = ud\<lparr>personalInfo := personalInfoOf (personalInfo ud) text\<rparr>"
  by (simp add: extractPersonalInfo_def personalInfoOf_def Let_def)

lemma personalInfoOf_idem:
  "personalInfoOf (personalInfoOf p text) text = personalInfoOf p text"
  by (simp add: personalInfoOf_def Let_def split: option.splits)

lemma foldl_push_education:
  "foldl (\<lambda>u m. u\<lparr>education := education u @ [f m]\<rparr>) ud ms
     = ud\<lparr>education := education ud @ map f ms\<rparr>"
  by (induction ms arbitrary: ud) simp_all

lemma foldl_push_languages:
  "foldl (\<lambda>u l. u\<lparr>languages := languages u @ f l\<rparr>) ud ls
     = ud\<lparr>languages := languages ud @ concat (map f ls)\<rparr>"
  by (induction ls arbitrary: ud) simp_all

lemma pushAll_acc:
  "pushAll f acc ms = (case pushAll f [] ms of Inl e \<Rightarrow> Inl e | Inr es \<Rightarrow> Inr (acc @ es))"
proof (induction ms arbitrary: acc)
  case Nil
  show ?case by simp
next
  case (Cons m ms)
  show ?case
  proof (cases "f m")
    case (Inl e)
    then show ?thesis by simp
  next
    case (Inr entry)
    show ?thesis
      using Cons.IH [of "acc @ [entry]"] Cons.IH [of "[entry]"] Inr
      by (simp split: sum.splits)
  qed
qed

lemma extractEducation_eq:
  "extractEducation ud text =
     (case educationEntries text of
        Inl e \<Rightarrow> Inl e
      | Inr es \<Rightarrow> Inr (ud\<lparr>education := education ud @ es\<rparr>))"
  by (simp add: extractEducation_def educationEntries_def Let_def foldl_push_education
      split: option.splits sum.splits)

lemma extractExperience_eq:
  "extractExperience ud text =
     (case experienceEntries text of
        Inl e \<Rightarrow> Inl e
      | Inr xs \<Rightarrow> Inr (ud\<lparr>experience := experience ud @ xs\<rparr>))"
  by (simp add: extractExperience_def experienceEntries_def Let_def
      pushAll_acc [of _ "experience ud"] split: option.splits sum.splits)

lemma extractSkills_eq:
  "extractSkills ud text =
     ud\<lparr>skills := (case skillsOf text of None \<Rightarrow> skills ud | Some l \<Rightarrow> l)\<rparr>"
  by (simp add: extractSkills_def skillsOf_def split: option.splits)

lemma extractLanguages_eq:
  "extractLanguages ud text = ud\<lparr>languages := languages ud @ languageEntries text\<rparr>"
  by (simp add: extractLanguages_def languageEntries_def foldl_push_languages
      split: option.splits)

lemma extractCertifications_eq:
  "extractCertifications ud text =
     (case certificationEntries text of
        Inl e \<Rightarrow> Inl e
      | Inr cs \<Rightarrow> Inr (ud\<lparr>certifications := certifications ud @ cs\<rparr>))"
  by (simp add: extractCertifications_def certificationEntries_def Let_def
      pushAll_acc [of _ "certifications ud"] split: option.splits sum.splits)

text \<open>The whole extraction: it throws when one of the three loops throws, and otherwise
  returns the profile with the contributions of the text.\<close>

lemma extractInformation_eq:
  "extractInformation ud text =
     (case educationEntries text of
        Inl e \<Rightarrow> Inl e
      | Inr es \<Rightarrow>
          (case experienceEntries text of
             Inl e \<Rightarrow> Inl e
           | Inr xs \<Rightarrow>
               (case certificationEntries text of
                  Inl e \<Rightarrow> Inl e
                | Inr cs \<Rightarrow> Inr (withContributions ud text es xs cs))))"
  by (cases ud)
    (simp add: extractInformation_def extractPersonalInfo_eq extractEducation_eq
      extractExperience_eq extractSkills_eq extractLanguages_eq extractCertifications_eq
      withContributions_def split: sum.splits option.splits)

text \<open>The first pass over the one-line resume.\<close>

lemma schoolText_first_pass:
  "extractInformation (userData newResumeParser) schoolText
     = Inr ((userData newResumeParser)\<lparr>education := [schoolEntry]\<rparr>)"
  by code_simp

section \<open>Running the extraction twice\<close>

text \<open>
  Claim C3, as the code has it. The extraction is not idempotent on the entry lists: the
  loops push onto the lists the profile already holds. When a first pass over a text
  returns, a second pass over the same text returns as well; it leaves the personal
  information and the skills as the first pass left them, and appends to the education,
  experience, language and certification lists the same entries the first pass appended.
\<close>

theorem extractInformation_second_pass:
  assumes "extractInformation ud text = Inr ud1"
  shows "extractInformation ud1 text =
     Inr (ud1\<lparr>education := education ud1 @ drop (length (education ud)) (education ud1),
              experience := experience ud1 @ drop (length (experience ud)) (experience ud1),
              languages := languages ud1 @ drop (length (languages ud)) (languages ud1),
              certifications :=
                certifications ud1 @ drop (length (certifications ud)) (certifications ud1)\<rparr>)"
proof -
  from assms obtain es xs cs where
    e: "educationEntries text = Inr es" "experienceEntries text = Inr xs"
       "certificationEntries text = Inr cs"
    and u: "ud1 = withContributions ud text es xs cs"
    by (auto simp add: extractInformation_eq split: sum.splits)
  have "extractInformation ud1 text = Inr (withContributions ud1 text es xs cs)"
    by (simp add: extractInformation_eq e)
  moreover have "withContributions ud1 text es xs cs =
     ud1\<lparr>education := education ud1 @ drop (length (education ud)) (education ud1),
         experience := experience ud1 @ drop (length (experience ud)) (experience ud1),
         languages := languages ud1 @ drop (length (languages ud)) (languages ud1),
         certifications :=
           certifications ud1 @ drop (length (certifications ud)) (certifications ud1)\<rparr>"
    by (simp add: u withContributions_def personalInfoOf_idem split: option.splits)
  ultimately show ?thesis by simp
qed

theorem extractInformation_second_pass_witness:
  "extractInformation ((userData newResumeParser)\<lparr>education := [schoolEntry]\<rparr>) schoolText
     = Inr ((userData newResumeParser)\<lparr>education := [schoolEntry, schoolEntry]\<rparr>)"
  using extractInformation_second_pass [OF schoolText_first_pass]
  by (simp add: newResumeParser_def)

text \<open>
  The claim as stated fails: the second pass over the one-line resume duplicates the
  education entry the first pass made.
\<close>

theorem extractInformation_not_idempotent:
  "extractInformation (userData newResumeParser) schoolText
     = Inr ((userData newResumeParser)\<lparr>education := [schoolEntry]\<rparr>) \<and>
   extractInformation ((userData newResumeParser)\<lparr>education := [schoolEntry]\<rparr>) schoolText
     = Inr ((userData newResumeParser)\<lparr>education := [schoolEntry, schoolEntry]\<rparr>) \<and>
   (userData newResumeParser)\<lparr>education := [schoolEntry, schoolEntry]\<rparr>
     \<noteq> (userData newResumeParser)\<lparr>education := [schoolEntry]\<rparr>"
  by code_simp

section \<open>The entries the extraction appends\<close>

lemma solid_classes:
  "solid rxDigit ic" "solid rxUpperAZ ic" "solid rxLowerAZ ic"
  unfolding rxDigit_def rxUpperAZ_def rxLowerAZ_def
  by (rule solid_Cls, erule not_space_classes)+

lemma solid_universityRegex: "solid (pattern universityRegex) True"
  by (simp add: universityRegex_def rxTimes_def minIter_def solid_classes del: solid.simps(1,2,3))

lemma solid_companyRegex: "solid (pattern companyRegex) True"
  by (simp add: companyRegex_def rxTimes_def minIter_def solid_classes del: solid.simps(1,2,3))

lemma grpSolid_certRegex: "grpSolid (pattern certRegex) True 1"
  by (simp add: certRegex_def certDatePattern_def rxLazyStar_def rxOpt_def rxTimes_def
      rxAny_def rxDigit_def solid_Lit isSpace_def del: solid.simps(1,2,3))

lemma pushAll_elems:
  "pushAll f acc ms = Inr xs \<Longrightarrow> \<forall>x \<in> set xs. x \<in> set acc \<or> (\<exists>m \<in> set ms. f m = Inr x)"
proof (induction ms arbitrary: acc)
  case Nil
  then show ?case by simp
next
  case (Cons m ms)
  from Cons.prems obtain entry where
    e: "f m = Inr entry" "pushAll f (acc @ [entry]) ms = Inr xs"
    by (auto split: sum.splits)
  from Cons.IH [OF e(2)] e(1) show ?case by auto
qed

lemma educationEntries_institution:
  assumes "educationEntries text = Inr es" and "e \<in> set es"
  shows "institution e \<noteq> []"
proof -
  from assms obtain sec ms m where
    ms: "execAll universityRegex sec = Inr ms" "m \<in> set ms" "e = educationEntryOf sec m"
    by (auto simp add: educationEntries_def split: option.splits sum.splits)
  from execAll_matchOf [OF ms(1)] ms(2)
  have "matchOf (pattern universityRegex) (ignoreCase universityRegex)
          (multiline universityRegex) m" by simp
  then have "matchOf (pattern universityRegex) True False m"
    by (simp add: universityRegex_def)
  from trim_solid [OF matchOf_solid [OF this solid_universityRegex]] ms(3)
  show ?thesis by (simp add: educationEntryOf_def Let_def)
qed

lemma experienceEntries_company:
  assumes "experienceEntries text = Inr xs" and "x \<in> set xs"
  shows "company x \<noteq> []"
proof -
  from assms(1) obtain sec ms where
    ms: "execAll companyRegex sec = Inr ms" "pushAll (experienceEntryOf sec) [] ms = Inr xs"
    using assms(2) by (auto simp add: experienceEntries_def split: option.splits sum.splits)
  from pushAll_elems [OF ms(2)] assms(2) obtain m where
    m: "m \<in> set ms" "experienceEntryOf sec m = Inr x" by auto
  from execAll_matchOf [OF ms(1)] m(1)
  have "matchOf (pattern companyRegex) (ignoreCase companyRegex) (multiline companyRegex) m"
    by simp
  then have "matchOf (pattern companyRegex) True False m"
    by (simp add: companyRegex_def)
  from trim_solid [OF matchOf_solid [OF this solid_companyRegex]] m(2)
  show ?thesis by (auto simp add: experienceEntryOf_def Let_def split: sum.splits)
qed

lemma languageEntries_language:
  assumes "e \<in> set (languageEntries text)"
  shows "language e \<in> set commonLanguages"
  using assms
  by (auto simp add: languageEntries_def sectionLanguageEntries_def textLanguageEntries_def
      split: option.splits if_splits)

lemma commonLanguages_nonempty: "[] \<notin> set commonLanguages"
  by (simp add: commonLanguages_def)

lemma certificationEntries_name:
  assumes "certificationEntries text = Inr cs" and "c \<in> set cs"
  shows "certName c \<noteq> []"
proof -
  from assms(1) obtain sec ms where
    ms: "execAll certRegex sec = Inr ms" "pushAll (certificationEntryOf sec) [] ms = Inr cs"
    using assms(2) by (auto simp add: certificationEntries_def split: option.splits sum.splits)
  from pushAll_elems [OF ms(2)] assms(2) obtain m where
    m: "m \<in> set ms" "certificationEntryOf sec m = Inr c" by auto
  from m(2) obtain g where g: "groups m 1 = Some g" "certName c = trim g"
    by (auto simp add: certificationEntryOf_def trimGroup_def Let_def
        split: sum.splits option.splits)
  from execAll_matchOf [OF ms(1)] m(1)
  have "matchOf (pattern certRegex) (ignoreCase certRegex) (multiline certRegex) m"
    by simp
  then have "matchOf (pattern certRegex) True False m"
    by (simp add: certRegex_def)
  from trim_solid [OF matchOf_group [OF this grpSolid_certRegex g(1)]] g(2)
  show ?thesis by simp
qed

text \<open>
  Claim C5. When the extraction returns, the lists of the profile are the lists it was
  given with entries appended, and every appended entry has its primary field: the
  institution of an education entry, the company of an experience entry, the language of
  a language entry and the name of a certification entry are not empty. (An institution
  and a company are the trimmed text of a match that ends in a year; a language is one
  of the fifteen names of the source; a certification name is the trimmed first group,
  which holds a keyword.)
\<close>

theorem appended_entries_have_primary_field:
  assumes "extractInformation ud text = Inr ud'"
  shows "take (length (education ud)) (education ud') = education ud \<and>
     (\<forall>e \<in> set (drop (length (education ud)) (education ud')). institution e \<noteq> []) \<and>
     take (length (experience ud)) (experience ud') = experience ud \<and>
     (\<forall>e \<in> set (drop (length (experience ud)) (experience ud')). company e \<noteq> []) \<and>
     take (length (languages ud)) (languages ud') = languages ud \<and>
     (\<forall>e \<in> set (drop (length (languages ud)) (languages ud')). language e \<noteq> []) \<and>
     take (length (certifications ud)) (certifications ud') = certifications ud \<and>
     (\<forall>e \<in> set (drop (length (certifications ud)) (certifications ud')). certName e \<noteq> [])"
proof -
  from assms obtain es xs cs where
    e: "educationEntries text = Inr es" "experienceEntries text = Inr xs"
       "certificationEntries text = Inr cs"
    and u: "ud' = withContributions ud text es xs cs"
    by (auto simp add: extractInformation_eq split: sum.splits)
  have "\<forall>e \<in> set (languageEntries text). language e \<noteq> []"
    using languageEntries_language commonLanguages_nonempty by metis
  then show ?thesis
    using educationEntries_institution [OF e(1)] experienceEntries_company [OF e(2)]
      certificationEntries_name [OF e(3)]
    by (simp add: u withContributions_def)
qed

theorem appended_entries_have_primary_field_witness:
  "institution (hd (education ((userData newResumeParser)\<lparr>education := [schoolEntry]\<rparr>))) \<noteq> []"
  using appended_entries_have_primary_field [OF schoolText_first_pass]
  by (simp add: newResumeParser_def)

section \<open>Properties of the field classifier\<close>

lemma findLabelForInput_originalBg [simp]:
  "findLabelForInput q (input\<lparr>originalBg := b\<rparr>) = findLabelForInput q input"
  by (auto simp add: findLabelForInput_def split: sum.splits option.splits prod.splits)

lemma attrIncludes_originalBg [simp]:
  "attrIncludes (input\<lparr>originalBg := b\<rparr>) label k = attrIncludes input label k"
  by (simp add: attrIncludes_def)




lemma createFormMappings_length:
  "length (fst (createFormMappings q inputs)) = length inputs"
  by (induction inputs) (auto simp add: case_prod_beta split: option.splits)








section \<open>Properties of the autofill\<close>

lemma fillAll_length: "length (fst (fillAll ud inputs)) = length inputs"
  by (induction inputs) (auto split: sum.splits prod.splits)

lemma fillInput_unmatched_select:
  assumes "tagName input = ''SELECT''" and "fieldType input = Some ft" and "ft \<noteq> []"
    and "fieldValue ud input ft = Some v" and "v \<noteq> []"
    and "findOption (options input) v = None"
  shows "fillInput ud input = Inr (input, False)"
  using assms by (simp add: fillInput_def)

lemma fillAll_skip:
  assumes "fillInput ud input = Inr (input, False)"
  shows "fillAll ud (pre @ input # post) =
     (take (length pre) (fst (fillAll ud (pre @ post))) @ input #
        drop (length pre) (fst (fillAll ud (pre @ post))),
      snd (fillAll ud (pre @ post)))"
proof (induction pre)
  case Nil
  show ?case
    using assms by (cases "fillAll ud post") (auto split: sum.splits)
next
  case (Cons p pre)
  show ?case
  proof (cases "automationAnalyzed p")
    case False
    then show ?thesis
      using Cons by (simp split: prod.splits)
  next
    case True
    show ?thesis
    proof (cases "fillInput ud p")
      case (Inl e)
      then show ?thesis
        using True by simp
    next
      case (Inr r)
      obtain p' counted where r: "r = (p', counted)"
        by (cases r)
      show ?thesis
        using True Inr r Cons by (simp split: prod.splits sum.splits)
    qed
  qed
qed

lemma markFileInput_select: "tagName input = ''SELECT'' \<Longrightarrow> markFileInput input = input"
  by (simp add: markFileInput_def)

lemma findOption_None_iff:
  "findOption opts v = None \<longleftrightarrow>
     (\<forall>opt \<in> set opts. \<not> includesStr (toLowerCase (optText opt)) (toLowerCase v))"
  by (auto simp add: findOption_def find_None_iff)

text \<open>
  Claim C6, as the code has it. An enumerated control (a \<open>SELECT\<close>) whose computed value
  is contained, case-insensitively, in no option's display text is left exactly as it was
  (no option is forced), and it is not counted: the page and the result of
  \<open>autoFillApplication\<close> are those of the page without the control, with the control put
  back unchanged in its place. The result carries the success flag and the count of filled
  fields (or the error); it holds no list of skipped descriptors and no reasons.
\<close>

theorem autofill_unmatched_select_passed_over:
  assumes "tagName input = ''SELECT''" and "fieldType input = Some ft" and "ft \<noteq> []"
    and "fieldValue ud input ft = Some v" and "v \<noteq> []"
    and "\<forall>opt \<in> set (options input). \<not> includesStr (toLowerCase (optText opt)) (toLowerCase v)"
  shows "fillInput ud input = Inr (input, False) \<and>
    autoFillApplication ud (pre @ input # post) =
      (take (length pre) (fst (autoFillApplication ud (pre @ post))) @ input #
         drop (length pre) (fst (autoFillApplication ud (pre @ post))),
       snd (autoFillApplication ud (pre @ post)))"
proof -
  have none: "findOption (options input) v = None"
    using assms(6) by (simp add: findOption_None_iff)
  have f: "fillInput ud input = Inr (input, False)"
    using assms(1-5) none by (rule fillInput_unmatched_select)
  obtain page r where pr: "fillAll ud (pre @ post) = (page, r)"
    by (cases "fillAll ud (pre @ post)")
  have len: "length page = length pre + length post"
    using fillAll_length [of ud "pre @ post"] pr by simp
  have skip: "fillAll ud (pre @ input # post) =
      (take (length pre) page @ input # drop (length pre) page, r)"
    using fillAll_skip [OF f, of pre post] pr by simp
  have "autoFillApplication ud (pre @ input # post) =
      (take (length pre) (fst (autoFillApplication ud (pre @ post))) @ input #
         drop (length pre) (fst (autoFillApplication ud (pre @ post))),
       snd (autoFillApplication ud (pre @ post)))"
  proof (cases r)
    case (Inl e)
    then show ?thesis
      using skip pr by (simp add: autoFillApplication_def)
  next
    case (Inr n)
    then show ?thesis
      using skip pr assms(1)
      by (simp add: autoFillApplication_def markFileInput_select take_map drop_map)
  qed
  with f show ?thesis by simp
qed

lemma skillsSelect_value:
  "fieldValue goRustProfile skillsSelect ''skills'' = Some ''Go, Rust''"
  by (simp add: fieldValue_def goRustProfile_def)

lemma skillsSelect_no_option:
  "\<forall>opt \<in> set (options skillsSelect). \<not> includesStr (toLowerCase (optText opt)) (toLowerCase ''Go, Rust'')"
  by (simp add: skillsSelect_def blankInput_def toLowerCase_def toLowerChar_def isUpperAZ_def)

theorem autofill_unmatched_select_passed_over_witness:
  "fillInput goRustProfile skillsSelect = Inr (skillsSelect, False) \<and>
   autoFillApplication goRustProfile [skillsSelect] =
     ([skillsSelect], \<lparr>success = True, filledFields = Some 0, error = None\<rparr>)"
proof -
  have a: "tagName skillsSelect = ''SELECT''" "fieldType skillsSelect = Some ''skills''"
    by (simp_all add: skillsSelect_def blankInput_def)
  have b: "''skills'' \<noteq> []" "''Go, Rust'' \<noteq> []"
    by simp_all
  have e: "autoFillApplication goRustProfile [] = ([], \<lparr>success = True, filledFields = Some 0, error = None\<rparr>)"
    by (simp add: autoFillApplication_def)
  show ?thesis
    using autofill_unmatched_select_passed_over
      [OF a(1) a(2) b(1) skillsSelect_value b(2) skillsSelect_no_option, of "[]" "[]"] e
    by simp
qed

text \<open>
  The claim as stated fails in its last part: the result of \<open>autoFillApplication\<close> does not
  report the skipped descriptors. The page with the skipped skills select and the empty
  page give the same result, although one has a skipped descriptor (reason: no matching
  option) and the other has none.
\<close>

theorem autofill_result_reports_no_skips:
  "snd (autoFillApplication goRustProfile [skillsSelect]) =
     \<lparr>success = True, filledFields = Some 0, error = None\<rparr> \<and>
   snd (autoFillApplication goRustProfile []) =
     \<lparr>success = True, filledFields = Some 0, error = None\<rparr> \<and>
   skippedBySpec goRustProfile [skillsSelect] = [(skillsSelect, NoMatchingOption)] \<and>
   skippedBySpec goRustProfile [] = []"
proof -
  have v: "fieldValue goRustProfile skillsSelect ''skills'' = Some ''Go, Rust''"
    by (rule skillsSelect_value)
  have n: "findOption (options skillsSelect) ''Go, Rust'' = None"
    using skillsSelect_no_option by (simp add: findOption_None_iff)
  have s: "tagName skillsSelect = ''SELECT''" "fieldType skillsSelect = Some ''skills''"
    "automationAnalyzed skillsSelect"
    by (simp_all add: skillsSelect_def blankInput_def)
  have f: "fillInput goRustProfile skillsSelect = Inr (skillsSelect, False)"
    using s v n by (simp add: fillInput_def)
  show ?thesis
    using s v n f
    by (simp add: autoFillApplication_def skippedBySpec_def skipReasonOf_def markFileInput_select)
qed

section \<open>Properties of the authentication\<close>

lemma handleGenericLogin_missing_element:
  assumes "firstVisible drv (world b) usernameSelectors = None \<or>
           firstVisible drv (world b) passwordSelectors = None \<or>
           firstVisible drv (world b) submitSelectors = None"
  shows "handleGenericLogin drv b domain = (b, False)"
  using assms by (auto simp add: handleGenericLogin_def split: option.splits)

lemma handleGenericLogin_no_credential:
  assumes "genericCredentialFor (botUserData b) domain = None"
  shows "handleGenericLogin drv b domain = (b, False)"
  using assms by (auto simp add: handleGenericLogin_def split: option.splits)

text \<open>A page with a fixed set of visible elements, on which every call passes and changes
  nothing, and the bot that has stored a session for \<open>jobs.example.com\<close> but holds no
  credentials at all.\<close>

definition staticDriver :: "string list driver" where
  "staticDriver =
     \<lparr>selects = (\<lambda>w selector. selector \<in> set w),
      isVisible = (\<lambda>w selector. selector \<in> set w),
      currentUrl = (\<lambda>w. ''https://jobs.example.com/apply''),
      cookiesOf = (\<lambda>w. []),
      perform = (\<lambda>a w. Some w),
      hostname = (\<lambda>url. if url = ''https://jobs.example.com/apply'' then Some ''jobs.example.com''
                         else None)\<rparr>"

definition returningBot :: "string list \<Rightarrow> (string \<times> session) list \<Rightarrow> string list bot" where
  "returningBot page sessions =
     \<lparr>botUserData = \<lparr>linkedinCredentials = None, indeedCredentials = None,
                      glassdoorCredentials = None, genericCredentials = None\<rparr>,
      loggedInSites = sessions,
      world = page,
      trace = []\<rparr>"

text \<open>
  Claim C8, as the code has it. For a URL whose host matches none of \<open>linkedin\<close>,
  \<open>indeed\<close>, \<open>glassdoor\<close> and for which no generic credential is registered,
  \<open>handleAuthentication\<close> returns \<open>false\<close> and leaves the bot as it was (no call on the page
  is made, so no form element is filled), unless a session stored for the host is still
  valid, in which case it returns \<open>true\<close>, again without any call. And the generic flow
  returns \<open>false\<close> without any call as soon as one of the username, password and submit
  elements does not resolve to a visible element, whatever credentials are there.
\<close>

theorem unregistered_domain_fails_without_fill:
  "(hostname drv url = Some domain \<and>
    \<not> includesStr domain ''linkedin'' \<and> \<not> includesStr domain ''indeed'' \<and>
    \<not> includesStr domain ''glassdoor'' \<and>
    genericCredentialFor (botUserData b) domain = None \<longrightarrow>
      handleAuthentication drv b url =
        Inr (b, mapHas (loggedInSites b) domain \<and> checkIfStillLoggedIn drv (world b))) \<and>
   (firstVisible drv (world b) usernameSelectors = None \<or>
    firstVisible drv (world b) passwordSelectors = None \<or>
    firstVisible drv (world b) submitSelectors = None \<longrightarrow>
      handleGenericLogin drv b domain = (b, False))"
  by (auto simp add: handleAuthentication_def handleGenericLogin_no_credential
      handleGenericLogin_missing_element)

theorem unregistered_domain_fails_without_fill_witness:
  "handleAuthentication staticDriver (returningBot [''input[type=email]''] [])
      ''https://jobs.example.com/apply''
     = Inr (returningBot [''input[type=email]''] [], False) \<and>
   handleGenericLogin staticDriver (returningBot [''input[type=email]''] []) ''jobs.example.com''
     = (returningBot [''input[type=email]''] [], False)"
proof -
  let ?b = "returningBot [''input[type=email]''] []"
  have h: "hostname staticDriver ''https://jobs.example.com/apply'' = Some ''jobs.example.com''"
    by (simp add: staticDriver_def)
  have n: "\<not> includesStr ''jobs.example.com'' ''linkedin''"
    "\<not> includesStr ''jobs.example.com'' ''indeed''"
    "\<not> includesStr ''jobs.example.com'' ''glassdoor''"
    by simp_all
  have c: "genericCredentialFor (botUserData ?b) ''jobs.example.com'' = None"
    by (simp add: genericCredentialFor_def returningBot_def)
  have s: "\<not> mapHas (loggedInSites ?b) ''jobs.example.com''"
    by (simp add: mapHas_def returningBot_def)
  have p: "firstVisible staticDriver (world ?b) passwordSelectors = None"
    by (simp add: firstVisible_def passwordSelectors_def visibleElement_def staticDriver_def
        returningBot_def)
  show ?thesis
    using unregistered_domain_fails_without_fill
      [of staticDriver "''https://jobs.example.com/apply''" "''jobs.example.com''" ?b] h n c s p
    by simp
qed

text \<open>
  The claim as stated fails: with a stored session for the host and a logged-in marker
  visible on the page, authentication ends in success, not in failure, although the host
  matches no registry entry and no credential is registered.
\<close>

theorem unregistered_domain_session_still_valid:
  "handleAuthentication staticDriver
     (returningBot [''.user-avatar'']
        [(''jobs.example.com'', \<lparr>sessionUsername = ''jane'', sessionCookie = None\<rparr>)])
     ''https://jobs.example.com/apply''
   = Inr (returningBot [''.user-avatar'']
            [(''jobs.example.com'', \<lparr>sessionUsername = ''jane'', sessionCookie = None\<rparr>)], True) \<and>
   \<not> includesStr ''jobs.example.com'' ''linkedin'' \<and>
   \<not> includesStr ''jobs.example.com'' ''indeed'' \<and>
   \<not> includesStr ''jobs.example.com'' ''glassdoor'' \<and>
   genericCredentialFor
     (botUserData (returningBot [''.user-avatar'']
        [(''jobs.example.com'', \<lparr>sessionUsername = ''jane'', sessionCookie = None\<rparr>)]))
     ''jobs.example.com'' = None"
  by (simp add: handleAuthentication_def staticDriver_def returningBot_def mapHas_def
      checkIfStillLoggedIn_def visibleElement_def loginIndicators_def loggedInIndicators_def
      genericCredentialFor_def)

section \<open>Properties of the CV JSON import\<close>

text \<open>An environment in which the file holds the empty JSON object and every file
  operation passes; its numbers are natural numbers.\<close>

definition emptyObjectEnv :: "(nat, unit) cvEnv" where
  "emptyObjectEnv =
     \<lparr>readCV = (\<lambda>path. Inr (JObj [])), backupUserData = None, ensureDataDir = None,
      writeUserData = (\<lambda>v. None)\<rparr>"

definition natOps :: "nat numberOps" where
  "natOps = \<lparr>numToString = (\<lambda>n. ''0''), numTruthy = (\<lambda>n. n \<noteq> 0)\<rparr>"

lemma convertToUserData_empty_object:
  "convertToUserData natOps (JObj []) =
     Inr (JObj
       [(''personalInfo'',
           JObj [(''fullName'', JStr ''undefined undefined''), (''email'', JUndefined),
                 (''phone'', JUndefined), (''location'', JStr []), (''dateOfBirth'', JNull)]),
        (''education'', JArr []), (''experience'', JArr []), (''skills'', JArr []),
        (''languages'', JArr []), (''certifications'', JArr []),
        (''workAuthorizationStatus'', JUndefined), (''socialMediaProfiles'', JObj []),
        (''linkedinCredentials'',
           JObj [(''username'', JUndefined), (''password'', JStr ''placeholder'')]),
        (''indeedCredentials'',
           JObj [(''username'', JUndefined), (''password'', JStr ''placeholder'')]),
        (''glassdoorCredentials'',
           JObj [(''username'', JUndefined), (''password'', JStr ''placeholder'')])])"
  by (simp add: convertToUserData_def getProp_def propOf_def generateLocation_def
      experienceOf_def numbered_def jsTruthy_def educationOf_def languagesOf_def
      credentialsOf_def strConcat_def Let_def)

text \<open>
  Claim C10. The import of a CV JSON file never runs the completeness analysis: whenever
  \<open>importCVJson\<close> returns, the \<open>missingFields\<close> it returns is the empty list; and it does
  return, with the converted data and the empty list, for every file content whose
  conversion does not throw, when the file operations pass. This holds however incomplete
  the converted data is.
\<close>

theorem importCVJson_missingFields_empty:
  "(importCVJson ops env jsonFilePath = Inr r \<longrightarrow> importedMissingFields r = []) \<and>
   (readCV env jsonFilePath = Inr cvData \<and> convertToUserData ops cvData = Inr ud \<and>
    backupUserData env = None \<and> ensureDataDir env = None \<and> writeUserData env ud = None \<longrightarrow>
      importCVJson ops env jsonFilePath = Inr \<lparr>importedUserData = ud, importedMissingFields = []\<rparr>)"
  by (auto simp add: importCVJson_def split: sum.splits option.splits)

theorem importCVJson_missingFields_empty_witness:
  "importCVJson natOps emptyObjectEnv ''cv.json'' =
     Inr \<lparr>importedUserData = JObj
       [(''personalInfo'',
           JObj [(''fullName'', JStr ''undefined undefined''), (''email'', JUndefined),
                 (''phone'', JUndefined), (''location'', JStr []), (''dateOfBirth'', JNull)]),
        (''education'', JArr []), (''experience'', JArr []), (''skills'', JArr []),
        (''languages'', JArr []), (''certifications'', JArr []),
        (''workAuthorizationStatus'', JUndefined), (''socialMediaProfiles'', JObj []),
        (''linkedinCredentials'',
           JObj [(''username'', JUndefined), (''password'', JStr ''placeholder'')]),
        (''indeedCredentials'',
           JObj [(''username'', JUndefined), (''password'', JStr ''placeholder'')]),
        (''glassdoorCredentials'',
           JObj [(''username'', JUndefined), (''password'', JStr ''placeholder'')])],
      importedMissingFields = []\<rparr>"
proof -
  have e: "readCV emptyObjectEnv ''cv.json'' = Inr (JObj [])"
    "backupUserData emptyObjectEnv = None" "ensureDataDir emptyObjectEnv = None"
    "\<And>v. writeUserData emptyObjectEnv v = None"
    by (simp_all add: emptyObjectEnv_def)
  show ?thesis
    using importCVJson_missingFields_empty
      [of natOps emptyObjectEnv "''cv.json''" _ "JObj []"] e convertToUserData_empty_object
    by simp
qed

end
